theory Spec2Isabelle
  imports Main "HOL-Library.Multiset"
begin

section \<open>Text helpers of the converter\<close>

text \<open>
  JavaScript strings are modelled as \<open>string\<close> (character lists). The converter only
  inspects the ASCII characters \<open>&\<close>, \<open><\<close>, \<open>>\<close>, the double quote and the apostrophe,
  so the character width does not matter for what follows.
\<close>

subsection \<open>String.prototype.replace with a global single-character pattern\<close>

text \<open>
  \<^verbatim>\<open>text.replace(/c/g, s)\<close>: every occurrence of the character \<open>c\<close> is replaced by the
  string \<open>s\<close>; the replacement text is not scanned again.
\<close>

fun replaceAll :: "char \<Rightarrow> string \<Rightarrow> string \<Rightarrow> string" where
  "replaceAll c s [] = []"
| "replaceAll c s (x # xs) = (if x = c then s @ replaceAll c s xs else x # replaceAll c s xs)"

subsection \<open>escapeXml\<close>

text \<open>
  \<^verbatim>\<open>
  function escapeXml(text) {
      if (!text) return '';
      return text
          .replace(/&/g, '&amp;')
          .replace(/</g, '&lt;')
          .replace(/>/g, '&gt;')
          .replace(/"/g, '&quot;')
          .replace(/'/g, '&apos;');
  }
  \<close>
  The same function stands in both converter files. A string is falsy exactly when it is
  empty.
\<close>

definition escapeXml :: "string \<Rightarrow> string" where
  "escapeXml text =
     (if text = [] then []
      else replaceAll (CHR 0x27) ''&apos;''
             (replaceAll (CHR 0x22) ''&quot;''
               (replaceAll CHR ''>'' ''&gt;''
                 (replaceAll CHR ''<'' ''&lt;''
                   (replaceAll CHR ''&'' ''&amp;'' text)))))"

text \<open>The entity that stands for one character in escaped text.\<close>

definition xmlEntity :: "char \<Rightarrow> string" where
  "xmlEntity c =
     (if c = CHR ''&'' then ''&amp;''
      else if c = CHR ''<'' then ''&lt;''
      else if c = CHR ''>'' then ''&gt;''
      else if c = CHR 0x22 then ''&quot;''
      else if c = CHR 0x27 then ''&apos;''
      else [c])"

subsection \<open>Decimal rendering of integers\<close>

text \<open>
  Template literals such as \<^verbatim>\<open>`Boat ${boat.id}`\<close> convert a number to its decimal text.
  Boat identifiers and timestamps are integers; their text is the usual decimal numeral
  with a leading minus sign for negative values. (JavaScript holds integers exactly up
  to 2^53 and writes numbers from 1e21 on with an exponent; identifiers of that size lie
  outside the model.)
\<close>

definition digitChar :: "nat \<Rightarrow> char" where
  "digitChar d = ''0123456789'' ! d"

fun natToString :: "nat \<Rightarrow> string" where
  "natToString n = (if n < 10 then [digitChar n] else natToString (n div 10) @ [digitChar (n mod 10)])"

text \<open>The equation of \<open>natToString\<close> rewrites its own right-hand side, so it is not a simp rule.\<close>

declare natToString.simps [simp del]

definition intToString :: "int \<Rightarrow> string" where
  "intToString i = (if i < 0 then CHR ''-'' # natToString (nat (- i)) else natToString (nat i))"

subsection \<open>Dates\<close>

text \<open>
  A JavaScript \<open>Date\<close> holds a time value: a whole number of milliseconds since the
  epoch of magnitude at most 8.64e15, or NaN (an invalid date), here \<open>None\<close>.
  \<open>new Date(v)\<close> for a number \<open>v\<close> clips it to that range, and \<open>toISOString\<close> throws a
  RangeError on an invalid date. Neither function is defined in the repository; both are
  written out here for integer arguments as ECMAScript specifies them.
\<close>

datatype error = RangeError

definition newDate :: "int \<Rightarrow> int option" where
  "newDate v = (if \<bar>v\<bar> \<le> 8640000000000000 then Some v else None)"

definition padStart :: "nat \<Rightarrow> string \<Rightarrow> string" where
  "padStart n s = replicate (n - length s) CHR ''0'' @ s"

text \<open>The proleptic Gregorian date (year, month, day) of a day number counted from 1970-01-01.\<close>

definition civilFromDays :: "int \<Rightarrow> int \<times> int \<times> int" where
  "civilFromDays days =
     (let z = days + 719468;
          era = z div 146097;
          doe = z - era * 146097;
          yoe = (doe - doe div 1460 + doe div 36524 - doe div 146096) div 365;
          doy = doe - (365 * yoe + yoe div 4 - yoe div 100);
          mp = (5 * doy + 2) div 153;
          d = doy - (153 * mp + 2) div 5 + 1;
          m = (if mp < 10 then mp + 3 else mp - 9);
          y = yoe + era * 400 + (if m \<le> 2 then 1 else 0)
      in (y, m, d))"

definition yearToString :: "int \<Rightarrow> string" where
  "yearToString y =
     (if 0 \<le> y \<and> y \<le> 9999 then padStart 4 (natToString (nat y))
      else (if y < 0 then ''-'' else ''+'') @ padStart 6 (natToString (nat \<bar>y\<bar>)))"

definition toISOString :: "int option \<Rightarrow> error + string" where
  "toISOString tv =
     (case tv of
        None \<Rightarrow> Inl RangeError
      | Some t \<Rightarrow>
          (let msInDay = t mod 86400000 in
           case civilFromDays (t div 86400000) of
             (y, m, d) \<Rightarrow>
               Inr (yearToString y @ ''-'' @ padStart 2 (natToString (nat m)) @ ''-''
                    @ padStart 2 (natToString (nat d)) @ ''T''
                    @ padStart 2 (natToString (nat (msInDay div 3600000))) @ '':''
                    @ padStart 2 (natToString (nat (msInDay div 60000 mod 60))) @ '':''
                    @ padStart 2 (natToString (nat (msInDay div 1000 mod 60))) @ ''.''
                    @ padStart 3 (natToString (nat (msInDay mod 1000))) @ ''Z'')))"

text \<open>
  \<^verbatim>\<open>
  function timestampToISO(timestamp) {
      return new Date(timestamp * 1000).toISOString();
  }
  \<close>
\<close>

definition timestampToISO :: "int \<Rightarrow> error + string" where
  "timestampToISO timestamp = toISOString (newDate (timestamp * 1000))"

section \<open>Data model\<close>

text \<open>
  Numbers other than identifiers and timestamps (coordinates, distances, altitudes) are
  floating-point values. Their type is left open as \<open>'n\<close>, and the operations of the
  JavaScript runtime on them are collected in a record that every function of the model
  takes as its first argument.
\<close>

record 'n host =
  numToString :: "'n \<Rightarrow> string"  \<comment> \<open>the text of a number in a template literal\<close>
  truthy :: "'n \<Rightarrow> bool"  \<comment> \<open>false for 0 and NaN\<close>
  parseFloat :: "string \<Rightarrow> 'n"
  dateSeconds :: "string \<Rightarrow> 'n"  \<comment> \<open>\<^verbatim>\<open>new Date(s).getTime() / 1000\<close>\<close>
  nowSeconds :: "'n"  \<comment> \<open>\<^verbatim>\<open>Date.now() / 1000\<close>\<close>
  numDate :: "'n \<Rightarrow> int option"  \<comment> \<open>the time value of \<^verbatim>\<open>new Date(x * 1000)\<close>\<close>

text \<open>
  A Moment of the position log. The fields \<open>dtf\<close>, \<open>alt\<close>, \<open>lap\<close> and \<open>pc\<close> may be missing
  from the JSON object (\<open>None\<close>, JavaScript's \<open>undefined\<close>); \<open>at\<close> is Unix seconds. A field
  that is present holds a number: JSON \<open>null\<close> and values of other types are excluded by
  the types of the records. Likewise the fields of a team are strings where present, and
  the objects of one input are distinct, as \<open>JSON.parse\<close> makes them.
\<close>

record 'n moment =
  dtf :: "'n option"
  lat :: "'n"
  lon :: "'n"
  at :: int
  alt :: "'n option"
  lap :: "'n option"
  pc :: "'n option"

record 'n positionRecord =
  boat_id :: int
  moments :: "'n moment list"

record teamRecord =
  team_id :: int
  name :: "string option"
  owner :: "string option"
  model :: "string option"
  country :: "string option"
  sail :: "string option"

record raceSetup =
  title :: "string option"
  teams :: "teamRecord list option"

record 'n trackPoint =
  pt_lat :: "'n"
  pt_lon :: "'n"
  pt_at :: "'n"

record 'n overlayTrack =
  trk_name :: string
  points :: "'n trackPoint list"

record 'n overlay =
  ov_name :: string
  color :: string
  source :: string
  tracks :: "'n overlayTrack list"

section \<open>The converter\<close>

abbreviation NL :: string where
  "NL \<equiv> [CHR 0x0A]"

abbreviation DQ :: string where
  "DQ \<equiv> [CHR 0x22]"

text \<open>\<^verbatim>\<open>a || b\<close> on an optional string: the fallback is taken for a missing and for an empty string.\<close>

definition orElse :: "string option \<Rightarrow> string \<Rightarrow> string" where
  "orElse v d = (case v of None \<Rightarrow> d | Some s \<Rightarrow> if s = [] then d else s)"

subsection \<open>The lookup table from boat id to team\<close>

text \<open>
  \<^verbatim>\<open>
  const boatToTeam = {};
  if (raceSetup.teams) {
      raceSetup.teams.forEach(team => {
          boatToTeam[team.id] = team;
      });
  }
  \<close>
\<close>

fun forEachTeam :: "teamRecord list \<Rightarrow> (int \<rightharpoonup> teamRecord) \<Rightarrow> (int \<rightharpoonup> teamRecord)" where
  "forEachTeam [] boatToTeam = boatToTeam"
| "forEachTeam (team # rest) boatToTeam = forEachTeam rest (boatToTeam(team_id team \<mapsto> team))"

definition buildBoatToTeam :: "raceSetup \<Rightarrow> (int \<rightharpoonup> teamRecord)" where
  "buildBoatToTeam raceSetup =
     (case teams raceSetup of None \<Rightarrow> Map.empty | Some ts \<Rightarrow> forEachTeam ts Map.empty)"

subsection \<open>Display values of a boat\<close>

text \<open>
  \<^verbatim>\<open>
  const team = boatToTeam[boat.id];
  const boatName = team ? (team.name || `Boat ${boat.id}`) : `Boat ${boat.id}`;
  const owner = team ? (team.owner || 'Unknown') : 'Unknown';
  const model = team ? (team.model || 'Unknown') : 'Unknown';
  const country = team ? (team.country || 'Unknown') : 'Unknown';
  const sailNumber = team ? (team.sail || '') : '';
  let desc = `Boat ID: ${boat.id}, Owner: ${owner}, Model: ${model}, Country: ${country}`;
  if (sailNumber) {
      desc += `, Sail: ${sailNumber}`;
  }
  \<close>
\<close>

definition boatNameOf :: "teamRecord option \<Rightarrow> int \<Rightarrow> string" where
  "boatNameOf team bid =
     (case team of Some t \<Rightarrow> orElse (name t) (''Boat '' @ intToString bid)
      | None \<Rightarrow> ''Boat '' @ intToString bid)"

definition ownerOf :: "teamRecord option \<Rightarrow> string" where
  "ownerOf team = (case team of Some t \<Rightarrow> orElse (owner t) ''Unknown'' | None \<Rightarrow> ''Unknown'')"

definition modelOf :: "teamRecord option \<Rightarrow> string" where
  "modelOf team = (case team of Some t \<Rightarrow> orElse (model t) ''Unknown'' | None \<Rightarrow> ''Unknown'')"

definition countryOf :: "teamRecord option \<Rightarrow> string" where
  "countryOf team = (case team of Some t \<Rightarrow> orElse (country t) ''Unknown'' | None \<Rightarrow> ''Unknown'')"

definition sailNumberOf :: "teamRecord option \<Rightarrow> string" where
  "sailNumberOf team = (case team of Some t \<Rightarrow> orElse (sail t) [] | None \<Rightarrow> [])"

definition descOf :: "teamRecord option \<Rightarrow> int \<Rightarrow> string" where
  "descOf team bid =
     (let desc = ''Boat ID: '' @ intToString bid @ '', Owner: '' @ ownerOf team
                 @ '', Model: '' @ modelOf team @ '', Country: '' @ countryOf team
      in if sailNumberOf team \<noteq> [] then desc @ '', Sail: '' @ sailNumberOf team else desc)"

text \<open>The opening of a boat's track block, up to and including the \<open>trkseg\<close> line.\<close>

definition trkOpen :: "teamRecord option \<Rightarrow> int \<Rightarrow> string" where
  "trkOpen team bid =
     ''  <trk>'' @ NL
     @ ''    <name>'' @ escapeXml (boatNameOf team bid) @ '' ('' @ escapeXml (ownerOf team)
     @ '')</name>'' @ NL
     @ ''    <desc>'' @ escapeXml (descOf team bid) @ ''</desc>'' @ NL
     @ ''    <trkseg>'' @ NL"

definition trkClose :: string where
  "trkClose = ''    </trkseg>'' @ NL @ ''  </trk>'' @ NL"

subsection \<open>Array.prototype.sort\<close>

text \<open>
  \<^verbatim>\<open>const sortedMoments = boat.moments.sort((a, b) => a.at - b.at);\<close>

  \<open>sort\<close> reorders the array it is called on and returns that same array. ECMAScript
  (2019 and later) requires the sort to be stable; for a comparator that is a total
  preorder the stable sorted arrangement is unique, so the engine's algorithm, which is not
  part of the repository, is modelled by insertion from the right: an element goes in
  front of the first element that does not compare smaller.
\<close>

definition compareAt :: "('n, 'z) moment_scheme \<Rightarrow> ('n, 'z) moment_scheme \<Rightarrow> int" where
  "compareAt a b = at a - at b"

fun insertSorted :: "('a \<Rightarrow> 'a \<Rightarrow> int) \<Rightarrow> 'a \<Rightarrow> 'a list \<Rightarrow> 'a list" where
  "insertSorted cmp x [] = [x]"
| "insertSorted cmp x (y # ys) = (if cmp x y \<le> 0 then x # y # ys else y # insertSorted cmp x ys)"

definition arraySort :: "('a \<Rightarrow> 'a \<Rightarrow> int) \<Rightarrow> 'a list \<Rightarrow> 'a list" where
  "arraySort cmp xs = foldr (insertSorted cmp) xs []"

subsection \<open>One track point\<close>

text \<open>
  \<^verbatim>\<open>
  gpx += `      <trkpt lat="${moment.lat}" lon="${moment.lon}">
          <time>${timestampToISO(moment.at)}</time>
          <extensions>
            <dtf>${moment.dtf || 0}</dtf>`;
  if (moment.alt !== undefined) { gpx += `
            <ele>${moment.alt}</ele>`; }
  if (moment.lap !== undefined) { gpx += `
            <lap>${moment.lap}</lap>`; }
  if (moment.pc !== undefined) { gpx += `
            <pc>${moment.pc}</pc>`; }
  gpx += `
          </extensions>
        </trkpt>
  `;
  \<close>
  \<open>moment.dtf || 0\<close> is the number 0, whose text is \<open>0\<close>, when \<open>dtf\<close> is missing or falsy.
\<close>

definition dtfText :: "'n host \<Rightarrow> 'n moment \<Rightarrow> string" where
  "dtfText h moment =
     (case dtf moment of None \<Rightarrow> ''0''
      | Some d \<Rightarrow> if truthy h d then numToString h d else ''0'')"

text \<open>The five pieces of text that the statements above append, one definition each.\<close>

definition trkptHead :: "'n host \<Rightarrow> 'n moment \<Rightarrow> string \<Rightarrow> string" where
  "trkptHead h moment stamp =
     ''      <trkpt lat='' @ DQ @ numToString h (lat moment) @ DQ
     @ '' lon='' @ DQ @ numToString h (lon moment) @ DQ @ ''>'' @ NL
     @ ''        <time>'' @ stamp @ ''</time>'' @ NL
     @ ''        <extensions>'' @ NL
     @ ''          <dtf>'' @ dtfText h moment @ ''</dtf>''"

definition eleElement :: "'n host \<Rightarrow> 'n \<Rightarrow> string" where
  "eleElement h v = NL @ ''          <ele>'' @ numToString h v @ ''</ele>''"

definition lapElement :: "'n host \<Rightarrow> 'n \<Rightarrow> string" where
  "lapElement h v = NL @ ''          <lap>'' @ numToString h v @ ''</lap>''"

definition pcElement :: "'n host \<Rightarrow> 'n \<Rightarrow> string" where
  "pcElement h v = NL @ ''          <pc>'' @ numToString h v @ ''</pc>''"

definition trkptTail :: string where
  "trkptTail = NL @ ''        </extensions>'' @ NL @ ''      </trkpt>'' @ NL"

definition trkpt :: "'n host \<Rightarrow> 'n moment \<Rightarrow> string \<Rightarrow> error + string" where
  "trkpt h moment gpx =
     (case timestampToISO (at moment) of
        Inl e \<Rightarrow> Inl e
      | Inr stamp \<Rightarrow>
          (let gpx1 = gpx @ trkptHead h moment stamp;
               gpx2 = (case alt moment of None \<Rightarrow> gpx1 | Some v \<Rightarrow> gpx1 @ eleElement h v);
               gpx3 = (case lap moment of None \<Rightarrow> gpx2 | Some v \<Rightarrow> gpx2 @ lapElement h v);
               gpx4 = (case pc moment of None \<Rightarrow> gpx3 | Some v \<Rightarrow> gpx3 @ pcElement h v)
           in Inr (gpx4 @ trkptTail)))"

text \<open>\<^verbatim>\<open>sortedMoments.forEach(moment => { ... })\<close>: an exception ends the loop and the call.\<close>

fun forEachMoment :: "'n host \<Rightarrow> 'n moment list \<Rightarrow> string \<Rightarrow> error + string" where
  "forEachMoment h [] gpx = Inr gpx"
| "forEachMoment h (moment # rest) gpx =
     (case trkpt h moment gpx of Inl e \<Rightarrow> Inl e | Inr gpx' \<Rightarrow> forEachMoment h rest gpx')"

subsection \<open>One boat, and all boats\<close>

text \<open>
  The body of \<^verbatim>\<open>positions.forEach(boat => { ... })\<close>. It returns the text built so far (or
  the exception) together with the boat as the call leaves it: the sort has rewritten
  \<open>boat.moments\<close> before the first point is written.
\<close>

definition convertBoat ::
  "'n host \<Rightarrow> (int \<rightharpoonup> teamRecord) \<Rightarrow> 'n positionRecord \<Rightarrow> string
     \<Rightarrow> (error + string) \<times> 'n positionRecord" where
  "convertBoat h boatToTeam boat gpx =
     (let team = boatToTeam (boat_id boat);
          gpx1 = gpx @ trkOpen team (boat_id boat);
          sortedMoments = arraySort compareAt (moments boat);
          boat' = boat\<lparr>moments := sortedMoments\<rparr>
      in case forEachMoment h sortedMoments gpx1 of
           Inl e \<Rightarrow> (Inl e, boat')
         | Inr gpx2 \<Rightarrow> (Inr (gpx2 @ trkClose), boat'))"

fun forEachBoat ::
  "'n host \<Rightarrow> (int \<rightharpoonup> teamRecord) \<Rightarrow> 'n positionRecord list \<Rightarrow> string
     \<Rightarrow> (error + string) \<times> 'n positionRecord list" where
  "forEachBoat h boatToTeam [] gpx = (Inr gpx, [])"
| "forEachBoat h boatToTeam (boat # rest) gpx =
     (case convertBoat h boatToTeam boat gpx of
        (Inl e, boat') \<Rightarrow> (Inl e, boat' # rest)
      | (Inr gpx', boat') \<Rightarrow>
          (case forEachBoat h boatToTeam rest gpx' of (r, rest') \<Rightarrow> (r, boat' # rest')))"

subsection \<open>generateGPX\<close>

text \<open>
  The document head up to the opening of the metadata time element, and the rest of the
  metadata block. The generation time \<open>now\<close>, \<^verbatim>\<open>new Date().toISOString()\<close> read once at
  the start of the call, goes between the two; \<open>about\<close> is the fixed description line,
  which differs between the two converters.
\<close>

definition docHead :: "raceSetup \<Rightarrow> string" where
  "docHead raceSetup =
     ''<?xml version='' @ DQ @ ''1.0'' @ DQ @ '' encoding='' @ DQ @ ''UTF-8'' @ DQ @ ''?>'' @ NL
     @ ''<gpx version='' @ DQ @ ''1.1'' @ DQ @ '' creator='' @ DQ @ ''decyb-gpx-converter'' @ DQ
     @ '' xmlns='' @ DQ @ ''http://www.topografix.com/GPX/1/1'' @ DQ @ ''>'' @ NL
     @ ''  <metadata>'' @ NL
     @ ''    <name>'' @ escapeXml (orElse (title raceSetup) ''Sailing Race'') @ ''</name>'' @ NL
     @ ''    <time>''"

definition docMeta :: "string \<Rightarrow> string" where
  "docMeta about = ''</time>'' @ NL @ ''    <desc>'' @ about @ ''</desc>'' @ NL @ ''  </metadata>'' @ NL"

text \<open>
  \<open>generateGPX(positions, raceSetup)\<close>. The result is the returned document (or the
  exception thrown) and the \<open>positions\<close> array as the call leaves it.
\<close>

definition generateGPX ::
  "'n host \<Rightarrow> string \<Rightarrow> 'n positionRecord list \<Rightarrow> raceSetup
     \<Rightarrow> (error + string) \<times> 'n positionRecord list" where
  "generateGPX h now positions raceSetup =
     (let gpx = docHead raceSetup @ now
                @ docMeta ''Converted from race data using decyb-gpx-converter'';
          boatToTeam = buildBoatToTeam raceSetup
      in case forEachBoat h boatToTeam positions gpx of
           (Inl e, positions') \<Rightarrow> (Inl e, positions')
         | (Inr gpx', positions') \<Rightarrow> (Inr (gpx' @ ''</gpx>''), positions'))"

subsection \<open>generateGPXWithOverlays\<close>

text \<open>
  \<^verbatim>\<open>
  overlays.forEach(overlay => {
      if (overlay.tracks && overlay.tracks.length > 0) {
          overlay.tracks.forEach(track => {
              gpx += `  <trk>
      <name>${escapeXml(overlay.name)} - ${escapeXml(track.name)}</name>
      <desc>Overlay track from ${overlay.source}</desc>
      <trkseg>
  `;
              track.points.forEach(point => {
                  gpx += `      <trkpt lat="${point.lat}" lon="${point.lon}">
          <time>${timestampToISO(point.at)}</time>
          <extensions>
            <overlay>true</overlay>
            <color>${overlay.color}</color>
          </extensions>
        </trkpt>
  `;
              });
              gpx += `    </trkseg>
    </trk>
  `;
          });
      }
  });
  \<close>
  The timestamp of an overlay point is a floating-point number; \<open>timestampToISO\<close> on it is
  \<open>toISOString\<close> of the date the runtime makes of it.
\<close>

definition overlayTrkptText :: "'n host \<Rightarrow> 'n overlay \<Rightarrow> 'n trackPoint \<Rightarrow> string \<Rightarrow> string" where
  "overlayTrkptText h ov point stamp =
     ''      <trkpt lat='' @ DQ @ numToString h (pt_lat point) @ DQ
     @ '' lon='' @ DQ @ numToString h (pt_lon point) @ DQ @ ''>'' @ NL
     @ ''        <time>'' @ stamp @ ''</time>'' @ NL
     @ ''        <extensions>'' @ NL
     @ ''          <overlay>true</overlay>'' @ NL
     @ ''          <color>'' @ color ov @ ''</color>'' @ NL
     @ ''        </extensions>'' @ NL
     @ ''      </trkpt>'' @ NL"

definition overlayTrkpt :: "'n host \<Rightarrow> 'n overlay \<Rightarrow> 'n trackPoint \<Rightarrow> string \<Rightarrow> error + string" where
  "overlayTrkpt h ov point gpx =
     (case toISOString (numDate h (pt_at point)) of
        Inl e \<Rightarrow> Inl e
      | Inr stamp \<Rightarrow> Inr (gpx @ overlayTrkptText h ov point stamp))"

fun forEachPoint :: "'n host \<Rightarrow> 'n overlay \<Rightarrow> 'n trackPoint list \<Rightarrow> string \<Rightarrow> error + string" where
  "forEachPoint h ov [] gpx = Inr gpx"
| "forEachPoint h ov (point # rest) gpx =
     (case overlayTrkpt h ov point gpx of Inl e \<Rightarrow> Inl e | Inr gpx' \<Rightarrow> forEachPoint h ov rest gpx')"

definition overlayTrkOpen :: "'n overlay \<Rightarrow> 'n overlayTrack \<Rightarrow> string" where
  "overlayTrkOpen ov track =
     ''  <trk>'' @ NL
     @ ''    <name>'' @ escapeXml (ov_name ov) @ '' - '' @ escapeXml (trk_name track) @ ''</name>'' @ NL
     @ ''    <desc>Overlay track from '' @ source ov @ ''</desc>'' @ NL
     @ ''    <trkseg>'' @ NL"

definition convertOverlayTrack ::
  "'n host \<Rightarrow> 'n overlay \<Rightarrow> 'n overlayTrack \<Rightarrow> string \<Rightarrow> error + string" where
  "convertOverlayTrack h ov track gpx =
     (case forEachPoint h ov (points track) (gpx @ overlayTrkOpen ov track) of
        Inl e \<Rightarrow> Inl e
      | Inr gpx' \<Rightarrow> Inr (gpx' @ trkClose))"

fun forEachTrack :: "'n host \<Rightarrow> 'n overlay \<Rightarrow> 'n overlayTrack list \<Rightarrow> string \<Rightarrow> error + string" where
  "forEachTrack h ov [] gpx = Inr gpx"
| "forEachTrack h ov (track # rest) gpx =
     (case convertOverlayTrack h ov track gpx of
        Inl e \<Rightarrow> Inl e
      | Inr gpx' \<Rightarrow> forEachTrack h ov rest gpx')"

fun forEachOverlay :: "'n host \<Rightarrow> 'n overlay list \<Rightarrow> string \<Rightarrow> error + string" where
  "forEachOverlay h [] gpx = Inr gpx"
| "forEachOverlay h (ov # rest) gpx =
     (if tracks ov \<noteq> [] then
        (case forEachTrack h ov (tracks ov) gpx of
           Inl e \<Rightarrow> Inl e
         | Inr gpx' \<Rightarrow> forEachOverlay h rest gpx')
      else forEachOverlay h rest gpx)"

definition generateGPXWithOverlays ::
  "'n host \<Rightarrow> string \<Rightarrow> 'n positionRecord list \<Rightarrow> raceSetup \<Rightarrow> 'n overlay list
     \<Rightarrow> (error + string) \<times> 'n positionRecord list" where
  "generateGPXWithOverlays h now positions raceSetup overlays =
     (let gpx = docHead raceSetup @ now
                @ docMeta ''Converted from race data using decyb-gpx-converter with overlays'';
          boatToTeam = buildBoatToTeam raceSetup
      in case forEachBoat h boatToTeam positions gpx of
           (Inl e, positions') \<Rightarrow> (Inl e, positions')
         | (Inr gpx', positions') \<Rightarrow>
             (case forEachOverlay h overlays gpx' of
                Inl e \<Rightarrow> (Inl e, positions')
              | Inr gpx'' \<Rightarrow> (Inr (gpx'' @ ''</gpx>''), positions')))"

section \<open>The track extractor\<close>

subsection \<open>The regular expressions of parseGpxTrack\<close>

text \<open>
  The four patterns of \<open>parseGpxTrack\<close> are sequences of literal texts and of starred
  character classes, greedy (\<open>*\<close>) or lazy (\<open>*?\<close>), some of them inside a capturing group.
  The classes are \<open>[\s\S]\<close> (any character) and \<open>[^c]\<close> (any character but \<open>c\<close>, line breaks
  included).
\<close>

datatype cls = AnyChar | NotChar char

fun inCls :: "cls \<Rightarrow> char \<Rightarrow> bool" where
  "inCls AnyChar x = True"
| "inCls (NotChar c) x = (x \<noteq> c)"

datatype item =
    Lit string
  | Star bool cls bool  \<comment> \<open>greedy?, the class, captured?\<close>

fun firstSome :: "('a \<Rightarrow> 'b option) \<Rightarrow> 'a list \<Rightarrow> 'b option" where
  "firstSome f [] = None"
| "firstSome f (x # xs) = (case f x of Some y \<Rightarrow> Some y | None \<Rightarrow> firstSome f xs)"

text \<open>
  A backtracking match of a pattern at the start of the input: the captured texts, in
  the order of their groups, and the input left after the match. A greedy star tries the
  longest run first and gives characters back one at a time; a lazy star tries the empty
  run first and takes one character more at a time.
\<close>

fun matchHere :: "item list \<Rightarrow> string \<Rightarrow> (string list \<times> string) option" where
  "matchHere [] s = Some ([], s)"
| "matchHere (Lit l # r) s =
     (if take (length l) s = l then matchHere r (drop (length l) s) else None)"
| "matchHere (Star greedy c captured # r) s =
     (let k = length (takeWhile (inCls c) s);
          runs = (if greedy then rev [0..<Suc k] else [0..<Suc k])
      in firstSome
           (\<lambda>n. case matchHere r (drop n s) of
                   None \<Rightarrow> None
                 | Some (caps, rest) \<Rightarrow> Some (if captured then take n s # caps else caps, rest))
           runs)"

text \<open>
  \<open>regex.exec(s)\<close>: the match at the leftmost position that has one. For a pattern with the
  \<open>g\<close> flag the search starts at \<open>lastIndex\<close>, which stands at the end of the previous match
  (and at 0 again after a failed search), so the model searches the input left over.
\<close>

fun exec :: "item list \<Rightarrow> string \<Rightarrow> (string list \<times> string) option" where
  "exec r [] = matchHere r []"
| "exec r (x # xs) =
     (case matchHere r (x # xs) of Some m \<Rightarrow> Some m | None \<Rightarrow> exec r xs)"

text \<open>
  \<^verbatim>\<open>
  const trackRegex = /<trk[^>]*>([\s\S]*?)<\/trk>/g;
  const trkptRegex = /<trkpt[^>]*lat="([^"]*)"[^>]*lon="([^"]*)"[^>]*>([\s\S]*?)<\/trkpt>/g;
  const timeRegex = /<time>([^<]*)<\/time>/;
  const nameRegex = /<name>([^<]*)<\/name>/;
  \<close>
\<close>

definition trackRegex :: "item list" where
  "trackRegex =
     [Lit ''<trk'', Star True (NotChar CHR ''>'') False, Lit ''>'',
      Star False AnyChar True, Lit ''</trk>'']"

definition trkptRegex :: "item list" where
  "trkptRegex =
     [Lit ''<trkpt'', Star True (NotChar CHR ''>'') False,
      Lit (''lat='' @ DQ), Star True (NotChar (CHR 0x22)) True, Lit DQ,
      Star True (NotChar CHR ''>'') False,
      Lit (''lon='' @ DQ), Star True (NotChar (CHR 0x22)) True, Lit DQ,
      Star True (NotChar CHR ''>'') False, Lit ''>'',
      Star False AnyChar True, Lit ''</trkpt>'']"

definition timeRegex :: "item list" where
  "timeRegex = [Lit ''<time>'', Star True (NotChar CHR ''<'') True, Lit ''</time>'']"

definition nameRegex :: "item list" where
  "nameRegex = [Lit ''<name>'', Star True (NotChar CHR ''<'') True, Lit ''</name>'']"

text \<open>The number of characters every match of a pattern consumes at least.\<close>

fun minLen :: "item list \<Rightarrow> nat" where
  "minLen [] = 0"
| "minLen (Lit l # r) = length l + minLen r"
| "minLen (Star greedy c captured # r) = minLen r"

lemma firstSome_SomeD: "firstSome f xs = Some y \<Longrightarrow> \<exists>x \<in> set xs. f x = Some y"
  by (induction xs) (auto split: option.splits)

lemma matchHere_length:
  "matchHere r s = Some (caps, rest) \<Longrightarrow> length rest + minLen r \<le> length s"
proof (induction r arbitrary: s caps rest)
  case Nil
  then show ?case by simp
next
  case (Cons it r)
  show ?case
  proof (cases it)
    case (Lit l)
    with Cons.prems have "matchHere r (drop (length l) s) = Some (caps, rest)"
      and "take (length l) s = l"
      by (auto split: if_splits)
    from Cons.IH [OF this(1)] this(2) Lit show ?thesis
      by (cases "length l \<le> length s") (auto simp: not_le)
  next
    case (Star greedy c captured)
    with Cons.prems obtain n where
      "(case matchHere r (drop n s) of None \<Rightarrow> None
        | Some (caps', rest') \<Rightarrow> Some (if captured then take n s # caps' else caps', rest'))
       = Some (caps, rest)"
      by (auto simp: Let_def dest!: firstSome_SomeD)
    then obtain caps' where "matchHere r (drop n s) = Some (caps', rest)"
      by (auto split: option.splits)
    from Cons.IH [OF this] Star show ?thesis by simp
  qed
qed

lemma exec_length: "exec r s = Some (caps, rest) \<Longrightarrow> length rest + minLen r \<le> length s"
proof (induction s)
  case Nil
  then show ?case using matchHere_length [of r "[]" caps rest] by simp
next
  case (Cons x xs)
  then show ?case
    using matchHere_length [of r "x # xs" caps rest]
    by (auto split: option.splits)
qed

lemma exec_trkpt_shorter: "exec trkptRegex s = Some (caps, rest) \<Longrightarrow> length rest < length s"
  using exec_length [of trkptRegex s caps rest] by (simp add: trkptRegex_def)

lemma exec_track_shorter: "exec trackRegex s = Some (caps, rest) \<Longrightarrow> length rest < length s"
  using exec_length [of trackRegex s caps rest] by (simp add: trackRegex_def)

subsection \<open>parseGpxTrack\<close>

text \<open>
  \<^verbatim>\<open>
  while ((pointMatch = trkptRegex.exec(trackContent)) !== null) {
      const lat = parseFloat(pointMatch[1]);
      const lon = parseFloat(pointMatch[2]);
      const pointContent = pointMatch[3];
      const timeMatch = timeRegex.exec(pointContent);
      const time = timeMatch ? new Date(timeMatch[1]).getTime() / 1000 : Date.now() / 1000;
      points.push({ lat: lat, lon: lon, at: time });
  }
  \<close>
  The captures of the model are numbered from 0, those of JavaScript from 1. The clock
  is read once for each point without a time element; the model gives all the points of
  one call the same reading \<open>nowSeconds\<close>.
\<close>

definition pointOf :: "'n host \<Rightarrow> string list \<Rightarrow> 'n trackPoint" where
  "pointOf h pointMatch =
     (let lat = parseFloat h (pointMatch ! 0);
          lon = parseFloat h (pointMatch ! 1);
          pointContent = pointMatch ! 2;
          time = (case exec timeRegex pointContent of
                    Some (timeMatch, _) \<Rightarrow> dateSeconds h (timeMatch ! 0)
                  | None \<Rightarrow> nowSeconds h)
      in \<lparr>pt_lat = lat, pt_lon = lon, pt_at = time\<rparr>)"

function pointLoop :: "'n host \<Rightarrow> string \<Rightarrow> 'n trackPoint list" where
  "pointLoop h trackContent =
     (case exec trkptRegex trackContent of
        None \<Rightarrow> []
      | Some (pointMatch, rest) \<Rightarrow> pointOf h pointMatch # pointLoop h rest)"
  by pat_completeness auto
termination
  by (relation "measure (\<lambda>(h, s). length s)") (auto dest: exec_trkpt_shorter)

text \<open>
  \<^verbatim>\<open>
  while ((match = trackRegex.exec(gpxData)) !== null) {
      const trackContent = match[1];
      const nameMatch = nameRegex.exec(trackContent);
      const trackName = nameMatch ? nameMatch[1] : 'Unknown Track';
      const points = [];
      ... the loop over the points ...
      if (points.length > 0) {
          tracks.push({ name: trackName, points: points });
      }
  }
  return tracks;
  \<close>
\<close>

function trackLoop :: "'n host \<Rightarrow> string \<Rightarrow> 'n overlayTrack list" where
  "trackLoop h gpxData =
     (case exec trackRegex gpxData of
        None \<Rightarrow> []
      | Some (match, rest) \<Rightarrow>
          (let trackContent = match ! 0;
               trackName = (case exec nameRegex trackContent of
                              Some (nameMatch, _) \<Rightarrow> nameMatch ! 0
                            | None \<Rightarrow> ''Unknown Track'');
               points = pointLoop h trackContent
           in if length points > 0
              then \<lparr>trk_name = trackName, points = points\<rparr> # trackLoop h rest
              else trackLoop h rest))"
  by pat_completeness auto
termination
  by (relation "measure (\<lambda>(h, s). length s)") (auto dest: exec_track_shorter)

definition parseGpxTrack :: "'n host \<Rightarrow> string \<Rightarrow> 'n overlayTrack list" where
  "parseGpxTrack h gpxData = trackLoop h gpxData"

section \<open>A runtime with whole numbers\<close>

text \<open>
  To run the model on concrete inputs the number type has to be fixed. \<open>sampleHost\<close> is a
  runtime whose numbers are the integers and NaN (\<open>None\<close>): \<open>parseFloat\<close> reads an optional
  minus sign and a run of digits at the start of the text, the date parser reads the one
  format \<open>YYYY-MM-DDTHH:MM:SSZ\<close>, and the clock stands at 2025-07-24T05:00:00Z.
\<close>

definition isDigit :: "char \<Rightarrow> bool" where
  "isDigit c = (c \<in> set ''0123456789'')"

fun digitsValue :: "string \<Rightarrow> nat \<Rightarrow> nat" where
  "digitsValue [] acc = acc"
| "digitsValue (c # cs) acc = digitsValue cs (acc * 10 + (of_char c - 48))"

definition readDigits :: "string \<Rightarrow> nat option" where
  "readDigits s =
     (let ds = takeWhile isDigit s in if ds = [] then None else Some (digitsValue ds 0))"

definition parseWhole :: "string \<Rightarrow> int option" where
  "parseWhole s =
     (case s of
        [] \<Rightarrow> None
      | c # cs \<Rightarrow>
          if c = CHR ''-'' then map_option (\<lambda>n. - int n) (readDigits cs)
          else map_option int (readDigits s))"

definition daysFromCivil :: "int \<Rightarrow> int \<Rightarrow> int \<Rightarrow> int" where
  "daysFromCivil y0 m d =
     (let y = (if m \<le> 2 then y0 - 1 else y0);
          era = y div 400;
          yoe = y - era * 400;
          doy = (153 * (if m > 2 then m - 3 else m + 9) + 2) div 5 + d - 1;
          doe = yoe * 365 + yoe div 4 - yoe div 100 + doy
      in era * 146097 + doe - 719468)"

definition parseIsoSeconds :: "string \<Rightarrow> int option" where
  "parseIsoSeconds s =
     (if length s = 20 \<and> s ! 4 = CHR ''-'' \<and> s ! 7 = CHR ''-'' \<and> s ! 10 = CHR ''T''
         \<and> s ! 13 = CHR '':'' \<and> s ! 16 = CHR '':'' \<and> s ! 19 = CHR ''Z''
         \<and> list_all isDigit (take 4 s @ take 2 (drop 5 s) @ take 2 (drop 8 s)
              @ take 2 (drop 11 s) @ take 2 (drop 14 s) @ take 2 (drop 17 s))
      then Some (daysFromCivil (int (digitsValue (take 4 s) 0))
                   (int (digitsValue (take 2 (drop 5 s)) 0))
                   (int (digitsValue (take 2 (drop 8 s)) 0)) * 86400
                 + int (digitsValue (take 2 (drop 11 s)) 0) * 3600
                 + int (digitsValue (take 2 (drop 14 s)) 0) * 60
                 + int (digitsValue (take 2 (drop 17 s)) 0))
      else None)"

definition sampleHost :: "int option host" where
  "sampleHost =
     \<lparr>numToString = (\<lambda>x. case x of None \<Rightarrow> ''NaN'' | Some i \<Rightarrow> intToString i),
      truthy = (\<lambda>x. case x of None \<Rightarrow> False | Some i \<Rightarrow> i \<noteq> 0),
      parseFloat = parseWhole,
      dateSeconds = parseIsoSeconds,
      nowSeconds = Some 1753333200,
      numDate = (\<lambda>x. case x of None \<Rightarrow> None | Some i \<Rightarrow> newDate (i * 1000))\<rparr>"

text \<open>Sample inputs: a position log of three boats, a roster with a repeated id, and two overlay groups.\<close>

definition samplePositions :: "int option positionRecord list" where
  "samplePositions =
     [\<lparr>boat_id = 1, moments =
         [\<lparr>dtf = Some (Some 5), lat = Some 22, lon = Some (-158), at = 1753333260,
            alt = None, lap = Some (Some 1), pc = None\<rparr>,
          \<lparr>dtf = None, lat = Some 21, lon = Some (-157), at = 1753333200,
            alt = Some (Some 3), lap = None, pc = None\<rparr>,
          \<lparr>dtf = Some (Some 4), lat = Some 23, lon = Some (-159), at = 1753333260,
            alt = None, lap = None, pc = Some (Some 2)\<rparr>]\<rparr>,
      \<lparr>boat_id = 7, moments = []\<rparr>,
      \<lparr>boat_id = 3, moments =
         [\<lparr>dtf = Some (Some 0), lat = Some 20, lon = Some (-156), at = 1753333200,
            alt = None, lap = None, pc = None\<rparr>,
          \<lparr>dtf = Some (Some 9), lat = Some 20, lon = Some (-155), at = 1753336800,
            alt = Some (Some 0), lap = None, pc = None\<rparr>]\<rparr>]"

definition sampleSetup :: raceSetup where
  "sampleSetup =
     \<lparr>title = Some ''Test'', teams = Some
        [\<lparr>team_id = 1, name = Some ''First'', owner = Some ''A'', model = None,
           country = None, sail = None\<rparr>,
         \<lparr>team_id = 1, name = Some ''Aimant & Fille'', owner = Some ''Steven'', model = Some ''J/145'',
           country = Some ''US'', sail = Some ''''\<rparr>,
         \<lparr>team_id = 3, name = Some '''', owner = None, model = Some ''X'',
           country = Some '''', sail = None\<rparr>]\<rparr>"

definition sampleOverlays :: "int option overlay list" where
  "sampleOverlays =
     [\<lparr>ov_name = ''Garmin <1>'', color = ''FF0000'', source = ''data/a&b.gpx'',
        tracks = [\<lparr>trk_name = ''Leg 1'',
                   points = [\<lparr>pt_lat = Some 21, pt_lon = Some (-157), pt_at = Some 1753333200\<rparr>]\<rparr>]\<rparr>,
      \<lparr>ov_name = ''Empty'', color = ''00FF00'', source = ''empty.gpx'', tracks = []\<rparr>]"

text \<open>The roster's team of boat 3, and the text of a small track file.\<close>

definition sampleTeam3 :: teamRecord where
  "sampleTeam3 = \<lparr>team_id = 3, name = Some [], owner = None, model = Some ''X'',
                   country = Some [], sail = None\<rparr>"

definition sampleGpx :: string where
  "sampleGpx =
     ''<gpx><trk><name>A</name><trkseg>''
     @ ''<trkpt lat='' @ DQ @ ''12'' @ DQ @ '' lon='' @ DQ @ ''-7'' @ DQ @ ''>''
     @ ''<time>2025-07-24T05:00:00Z</time></trkpt>''
     @ ''<trkpt lat='' @ DQ @ ''13'' @ DQ @ '' lon='' @ DQ @ ''-8'' @ DQ @ ''></trkpt>''
     @ ''</trkseg></trk><trk><name>B</name><trkseg></trkseg></trk></gpx>''"

definition sampleNow :: string where
  "sampleNow = ''2025-08-01T12:00:00.000Z''"

section \<open>Notions used to state the properties\<close>

text \<open>The track block of a boat, given the text of its points.\<close>

definition boatTrackBlock :: "(int \<rightharpoonup> teamRecord) \<Rightarrow> 'n positionRecord \<Rightarrow> string \<Rightarrow> string" where
  "boatTrackBlock boatToTeam boat pts =
     trkOpen (boatToTeam (boat_id boat)) (boat_id boat) @ pts @ trkClose"

text \<open>A boat as the converter leaves it: its moments array sorted.\<close>

definition sortedInPlace :: "'n positionRecord \<Rightarrow> 'n positionRecord" where
  "sortedInPlace boat = boat\<lparr>moments := arraySort compareAt (moments boat)\<rparr>"

text \<open>
  The outcome of a run whose generation time is \<open>now\<close>: the exception, or the document
  made of the head, the generation time and the rest.
\<close>

definition stamped :: "string \<Rightarrow> string \<Rightarrow> error + string \<Rightarrow> error + string" where
  "stamped headText now rest =
     (case rest of Inl e \<Rightarrow> Inl e | Inr t \<Rightarrow> Inr (headText @ now @ t))"

text \<open>The optional strings that \<^verbatim>\<open>||\<close> replaces by its right operand.\<close>

definition absentOrEmpty :: "string option \<Rightarrow> bool" where
  "absentOrEmpty v = (v = None \<or> v = Some [])"

text \<open>The five characters that \<open>escapeXml\<close> replaces.\<close>

definition isReserved :: "char \<Rightarrow> bool" where
  "isReserved c = (c \<in> {CHR ''&'', CHR ''<'', CHR ''>'', CHR 0x22, CHR 0x27})"

text \<open>The number of capturing groups of a pattern.\<close>

fun groups :: "item list \<Rightarrow> nat" where
  "groups [] = 0"
| "groups (Lit l # r) = groups r"
| "groups (Star greedy c captured # r) = (if captured then Suc (groups r) else groups r)"

section \<open>Basic facts\<close>

lemma replaceAll_concat: "replaceAll c s xs = concat (map (\<lambda>x. if x = c then s else [x]) xs)"
  by (induction xs) auto

lemma escapeXml_test: "escapeXml ''a&b<c'' = ''a&amp;b&lt;c''"
  by (simp add: escapeXml_def)

lemma intToString_test: "intToString (-120) = ''-120''"
  by code_simp

lemma timestampToISO_test: "timestampToISO 1753333200 = Inr ''2025-07-24T05:00:00.000Z''"
  by code_simp

subsection \<open>The loops append to the text built so far\<close>

lemma trkpt_acc:
  "trkpt h m gpx = (case trkpt h m [] of Inl e \<Rightarrow> Inl e | Inr t \<Rightarrow> Inr (gpx @ t))"
  by (simp add: trkpt_def Let_def split: sum.splits option.splits)

lemma forEachMoment_acc:
  "forEachMoment h ms gpx = (case forEachMoment h ms [] of Inl e \<Rightarrow> Inl e | Inr t \<Rightarrow> Inr (gpx @ t))"
proof (induction ms arbitrary: gpx)
  case Nil
  show ?case by simp
next
  case (Cons m ms)
  show ?case
  proof (cases "trkpt h m []")
    case (Inl e)
    then show ?thesis using trkpt_acc [of h m gpx] by simp
  next
    case (Inr t)
    then have "trkpt h m gpx = Inr (gpx @ t)" using trkpt_acc [of h m gpx] by simp
    with Inr show ?thesis
      using Cons.IH [of "gpx @ t"] Cons.IH [of t]
      by (simp split: sum.splits)
  qed
qed

lemma forEachMoment_texts:
  "forEachMoment h ms [] = Inr t \<Longrightarrow>
     \<exists>texts. map (\<lambda>m. trkpt h m []) ms = map Inr texts \<and> t = concat texts"
proof (induction ms arbitrary: t)
  case Nil
  then show ?case by simp
next
  case (Cons m ms)
  from Cons.prems obtain t1 where t1: "trkpt h m [] = Inr t1" and run: "forEachMoment h ms t1 = Inr t"
    by (auto split: sum.splits)
  from run forEachMoment_acc [of h ms t1]
  obtain t2 where t2: "forEachMoment h ms [] = Inr t2" and t: "t = t1 @ t2"
    by (auto split: sum.splits)
  from Cons.IH [OF t2] obtain texts where
    "map (\<lambda>m. trkpt h m []) ms = map Inr texts" and "t2 = concat texts"
    by blast
  with t1 t have "map (\<lambda>m. trkpt h m []) (m # ms) = map Inr (t1 # texts) \<and> t = concat (t1 # texts)"
    by simp
  then show ?case by blast
qed

lemma convertBoat_acc:
  "convertBoat h bt boat gpx =
     (case convertBoat h bt boat [] of
        (Inl e, b') \<Rightarrow> (Inl e, b')
      | (Inr t, b') \<Rightarrow> (Inr (gpx @ t), b'))"
  using forEachMoment_acc [of h "arraySort compareAt (moments boat)" "gpx @ trkOpen (bt (boat_id boat)) (boat_id boat)"]
    forEachMoment_acc [of h "arraySort compareAt (moments boat)" "trkOpen (bt (boat_id boat)) (boat_id boat)"]
  by (simp add: convertBoat_def Let_def split: sum.splits)

lemma convertBoat_snd:
  "snd (convertBoat h bt boat gpx) = boat\<lparr>moments := arraySort compareAt (moments boat)\<rparr>"
  by (simp add: convertBoat_def Let_def split: sum.splits)

lemma convertBoat_text:
  "fst (convertBoat h bt boat []) = Inr t \<longleftrightarrow>
     (\<exists>pts. forEachMoment h (arraySort compareAt (moments boat)) [] = Inr pts \<and>
        t = trkOpen (bt (boat_id boat)) (boat_id boat) @ pts @ trkClose)"
  using forEachMoment_acc [of h "arraySort compareAt (moments boat)" "trkOpen (bt (boat_id boat)) (boat_id boat)"]
  by (auto simp: convertBoat_def Let_def split: sum.splits)

lemma forEachBoat_acc:
  "forEachBoat h bt bs gpx =
     (case forEachBoat h bt bs [] of
        (Inl e, bs') \<Rightarrow> (Inl e, bs')
      | (Inr t, bs') \<Rightarrow> (Inr (gpx @ t), bs'))"
proof (induction bs arbitrary: gpx)
  case Nil
  show ?case by simp
next
  case (Cons b bs)
  obtain r b' where r: "convertBoat h bt b [] = (r, b')"
    by (cases "convertBoat h bt b []")
  show ?case
  proof (cases r)
    case (Inl e)
    with r show ?thesis using convertBoat_acc [of h bt b gpx] by simp
  next
    case (Inr t)
    with r have "convertBoat h bt b gpx = (Inr (gpx @ t), b')"
      using convertBoat_acc [of h bt b gpx] by simp
    with r Inr show ?thesis
      using Cons.IH [of "gpx @ t"] Cons.IH [of t]
      by (simp split: prod.splits sum.splits)
  qed
qed

lemma forEachBoat_snd:
  "fst (forEachBoat h bt bs gpx) = Inr t \<Longrightarrow>
     snd (forEachBoat h bt bs gpx) = map (\<lambda>b. b\<lparr>moments := arraySort compareAt (moments b)\<rparr>) bs"
proof (induction bs arbitrary: gpx t)
  case Nil
  show ?case by simp
next
  case (Cons b bs)
  obtain r b' where r: "convertBoat h bt b gpx = (r, b')"
    by (cases "convertBoat h bt b gpx")
  with convertBoat_snd [of h bt b gpx]
  have b': "b' = b\<lparr>moments := arraySort compareAt (moments b)\<rparr>" by simp
  from Cons.prems r obtain g where g: "r = Inr g"
    by (cases r) auto
  with Cons.prems r have "fst (forEachBoat h bt bs g) = Inr t"
    by (simp split: prod.splits)
  from Cons.IH [OF this] r g b' show ?case
    by (auto split: prod.splits)
qed

lemma forEachBoat_texts:
  "fst (forEachBoat h bt bs []) = Inr t \<Longrightarrow>
     \<exists>ptss. map (\<lambda>b. forEachMoment h (arraySort compareAt (moments b)) []) bs = map Inr ptss \<and>
            t = concat (map (\<lambda>(b, pts). trkOpen (bt (boat_id b)) (boat_id b) @ pts @ trkClose) (zip bs ptss))"
proof (induction bs arbitrary: t)
  case Nil
  then show ?case by simp
next
  case (Cons b bs)
  obtain r b' where r: "convertBoat h bt b [] = (r, b')"
    by (cases "convertBoat h bt b []")
  from Cons.prems r obtain t1 where t1: "r = Inr t1"
    by (cases r) auto
  with r have "fst (convertBoat h bt b []) = Inr t1" by simp
  then obtain pts where pts: "forEachMoment h (arraySort compareAt (moments b)) [] = Inr pts"
    and t1_eq: "t1 = trkOpen (bt (boat_id b)) (boat_id b) @ pts @ trkClose"
    using convertBoat_text [of h bt b t1] by blast
  from Cons.prems r t1 have run: "fst (forEachBoat h bt bs t1) = Inr t"
    by (simp split: prod.splits)
  with forEachBoat_acc [of h bt bs t1]
  obtain t2 where t2: "fst (forEachBoat h bt bs []) = Inr t2" and t: "t = t1 @ t2"
    by (auto split: prod.splits sum.splits)
  from Cons.IH [OF t2] obtain ptss where
    m: "map (\<lambda>b. forEachMoment h (arraySort compareAt (moments b)) []) bs = map Inr ptss"
    and c: "t2 = concat (map (\<lambda>(b, pts). trkOpen (bt (boat_id b)) (boat_id b) @ pts @ trkClose) (zip bs ptss))"
    by blast
  from pts m t t1_eq c
  have "map (\<lambda>b. forEachMoment h (arraySort compareAt (moments b)) []) (b # bs) = map Inr (pts # ptss) \<and>
        t = concat (map (\<lambda>(b, pts). trkOpen (bt (boat_id b)) (boat_id b) @ pts @ trkClose) (zip (b # bs) (pts # ptss)))"
    by simp
  then show ?case by blast
qed

lemma overlayTrkpt_acc:
  "overlayTrkpt h ov p gpx = (case overlayTrkpt h ov p [] of Inl e \<Rightarrow> Inl e | Inr t \<Rightarrow> Inr (gpx @ t))"
  by (simp add: overlayTrkpt_def split: sum.splits)

lemma forEachPoint_acc:
  "forEachPoint h ov ps gpx = (case forEachPoint h ov ps [] of Inl e \<Rightarrow> Inl e | Inr t \<Rightarrow> Inr (gpx @ t))"
proof (induction ps arbitrary: gpx)
  case Nil
  show ?case by simp
next
  case (Cons p ps)
  show ?case
  proof (cases "overlayTrkpt h ov p []")
    case (Inl e)
    then show ?thesis using overlayTrkpt_acc [of h ov p gpx] by simp
  next
    case (Inr t)
    then have "overlayTrkpt h ov p gpx = Inr (gpx @ t)" using overlayTrkpt_acc [of h ov p gpx] by simp
    with Inr show ?thesis
      using Cons.IH [of "gpx @ t"] Cons.IH [of t]
      by (simp split: sum.splits)
  qed
qed

lemma convertOverlayTrack_acc:
  "convertOverlayTrack h ov tr gpx =
     (case convertOverlayTrack h ov tr [] of Inl e \<Rightarrow> Inl e | Inr t \<Rightarrow> Inr (gpx @ t))"
  using forEachPoint_acc [of h ov "points tr" "gpx @ overlayTrkOpen ov tr"]
    forEachPoint_acc [of h ov "points tr" "overlayTrkOpen ov tr"]
  by (simp add: convertOverlayTrack_def split: sum.splits)

lemma forEachTrack_acc:
  "forEachTrack h ov trs gpx = (case forEachTrack h ov trs [] of Inl e \<Rightarrow> Inl e | Inr t \<Rightarrow> Inr (gpx @ t))"
proof (induction trs arbitrary: gpx)
  case Nil
  show ?case by simp
next
  case (Cons tr trs)
  show ?case
  proof (cases "convertOverlayTrack h ov tr []")
    case (Inl e)
    then show ?thesis using convertOverlayTrack_acc [of h ov tr gpx] by simp
  next
    case (Inr t)
    then have "convertOverlayTrack h ov tr gpx = Inr (gpx @ t)"
      using convertOverlayTrack_acc [of h ov tr gpx] by simp
    with Inr show ?thesis
      using Cons.IH [of "gpx @ t"] Cons.IH [of t]
      by (simp split: sum.splits)
  qed
qed

lemma forEachOverlay_acc:
  "forEachOverlay h ovs gpx = (case forEachOverlay h ovs [] of Inl e \<Rightarrow> Inl e | Inr t \<Rightarrow> Inr (gpx @ t))"
proof (induction ovs arbitrary: gpx)
  case Nil
  show ?case by simp
next
  case (Cons ov ovs)
  show ?case
  proof (cases "tracks ov = []")
    case True
    then show ?thesis using Cons.IH [of gpx] by simp
  next
    case False
    show ?thesis
    proof (cases "forEachTrack h ov (tracks ov) []")
      case (Inl e)
      with False show ?thesis using forEachTrack_acc [of h ov "tracks ov" gpx] by simp
    next
      case (Inr t)
      then have "forEachTrack h ov (tracks ov) gpx = Inr (gpx @ t)"
        using forEachTrack_acc [of h ov "tracks ov" gpx] by simp
      with Inr False show ?thesis
        using Cons.IH [of "gpx @ t"] Cons.IH [of t]
        by (simp split: sum.splits)
    qed
  qed
qed

subsection \<open>When the converter returns\<close>

text \<open>
  The only exception the converter can throw is the RangeError of \<open>toISOString\<close>. It
  returns a document when every timestamp lies within the range of a Date.
\<close>

lemma toISOString_Some: "\<exists>s. toISOString (Some t) = Inr s"
  by (simp add: toISOString_def Let_def split: prod.splits)

lemma timestampToISO_ok:
  "\<bar>t\<bar> \<le> 8640000000000 \<Longrightarrow> \<exists>s. timestampToISO t = Inr s"
proof -
  assume "\<bar>t\<bar> \<le> 8640000000000"
  then have "\<bar>t * 1000\<bar> \<le> 8640000000000000" by (simp add: abs_mult)
  then show ?thesis
    using toISOString_Some [of "t * 1000"] by (simp add: timestampToISO_def newDate_def)
qed

lemma trkpt_ok: "timestampToISO (at m) = Inr s \<Longrightarrow> \<exists>t. trkpt h m gpx = Inr t"
  by (simp add: trkpt_def Let_def)

lemma forEachMoment_ok:
  "\<forall>m \<in> set ms. \<bar>at m\<bar> \<le> 8640000000000 \<Longrightarrow> \<exists>t. forEachMoment h ms gpx = Inr t"
proof (induction ms arbitrary: gpx)
  case Nil
  show ?case by simp
next
  case (Cons m ms)
  then obtain s where "timestampToISO (at m) = Inr s"
    using timestampToISO_ok [of "at m"] by auto
  then obtain t where "trkpt h m gpx = Inr t" using trkpt_ok by blast
  with Cons show ?case by simp
qed

lemma set_insertSorted: "set (insertSorted cmp x ys) = insert x (set ys)"
  by (induction ys) auto

lemma set_arraySort: "set (arraySort cmp xs) = set xs"
  by (induction xs) (auto simp: arraySort_def set_insertSorted)

lemma convertBoat_ok:
  "\<forall>m \<in> set (moments b). \<bar>at m\<bar> \<le> 8640000000000 \<Longrightarrow> \<exists>t. fst (convertBoat h bt b gpx) = Inr t"
proof -
  assume "\<forall>m \<in> set (moments b). \<bar>at m\<bar> \<le> 8640000000000"
  then have "\<forall>m \<in> set (arraySort compareAt (moments b)). \<bar>at m\<bar> \<le> 8640000000000"
    by (simp add: set_arraySort)
  from forEachMoment_ok [OF this, of h "gpx @ trkOpen (bt (boat_id b)) (boat_id b)"]
  show ?thesis by (auto simp: convertBoat_def Let_def)
qed

lemma forEachBoat_ok:
  "\<forall>b \<in> set bs. \<forall>m \<in> set (moments b). \<bar>at m\<bar> \<le> 8640000000000 \<Longrightarrow>
     \<exists>t. fst (forEachBoat h bt bs gpx) = Inr t"
proof (induction bs arbitrary: gpx)
  case Nil
  show ?case by simp
next
  case (Cons b bs)
  then obtain t where t: "fst (convertBoat h bt b gpx) = Inr t"
    using convertBoat_ok [of b h bt gpx] by auto
  from Cons obtain t' where "fst (forEachBoat h bt bs t) = Inr t'" by fastforce
  with t show ?case by (auto split: prod.splits sum.splits)
qed

lemma generateGPX_ok:
  "\<forall>b \<in> set positions. \<forall>m \<in> set (moments b). \<bar>at m\<bar> \<le> 8640000000000 \<Longrightarrow>
     \<exists>doc. fst (generateGPX h now positions raceSetup) = Inr doc"
proof -
  let ?head = "docHead raceSetup @ now @ docMeta ''Converted from race data using decyb-gpx-converter''"
  assume a: "\<forall>b \<in> set positions. \<forall>m \<in> set (moments b). \<bar>at m\<bar> \<le> 8640000000000"
  from forEachBoat_ok [OF a, of h "buildBoatToTeam raceSetup" ?head]
  obtain g where g: "fst (forEachBoat h (buildBoatToTeam raceSetup) positions ?head) = Inr g" by blast
  then show ?thesis
    by (auto simp: generateGPX_def Let_def split: prod.splits sum.splits)
qed

lemma forEachPoint_ok:
  "\<forall>p \<in> set ps. numDate h (pt_at p) \<noteq> None \<Longrightarrow> \<exists>t. forEachPoint h ov ps gpx = Inr t"
proof (induction ps arbitrary: gpx)
  case Nil
  show ?case by simp
next
  case (Cons p ps)
  then obtain tv where "numDate h (pt_at p) = Some tv" by auto
  then obtain t where "overlayTrkpt h ov p gpx = Inr t"
    using toISOString_Some [of tv] by (auto simp: overlayTrkpt_def)
  with Cons show ?case by simp
qed

lemma forEachTrack_ok:
  "\<forall>tr \<in> set trs. \<forall>p \<in> set (points tr). numDate h (pt_at p) \<noteq> None \<Longrightarrow>
     \<exists>t. forEachTrack h ov trs gpx = Inr t"
proof (induction trs arbitrary: gpx)
  case Nil
  show ?case by simp
next
  case (Cons tr trs)
  then have "\<forall>p \<in> set (points tr). numDate h (pt_at p) \<noteq> None" by simp
  from forEachPoint_ok [OF this, of ov "gpx @ overlayTrkOpen ov tr"]
  obtain t where "convertOverlayTrack h ov tr gpx = Inr t"
    by (auto simp: convertOverlayTrack_def)
  with Cons show ?case by simp
qed

lemma forEachOverlay_ok:
  "\<forall>ov \<in> set ovs. \<forall>tr \<in> set (tracks ov). \<forall>p \<in> set (points tr). numDate h (pt_at p) \<noteq> None \<Longrightarrow>
     \<exists>t. forEachOverlay h ovs gpx = Inr t"
proof (induction ovs arbitrary: gpx)
  case Nil
  show ?case by simp
next
  case (Cons ov ovs)
  then have "\<forall>tr \<in> set (tracks ov). \<forall>p \<in> set (points tr). numDate h (pt_at p) \<noteq> None" by simp
  from forEachTrack_ok [OF this, of ov gpx]
  obtain t where "forEachTrack h ov (tracks ov) gpx = Inr t" by blast
  with Cons show ?case by simp
qed

lemma generateGPXWithOverlays_ok:
  "\<forall>b \<in> set positions. \<forall>m \<in> set (moments b). \<bar>at m\<bar> \<le> 8640000000000 \<Longrightarrow>
   \<forall>ov \<in> set overlays. \<forall>tr \<in> set (tracks ov). \<forall>p \<in> set (points tr). numDate h (pt_at p) \<noteq> None \<Longrightarrow>
     \<exists>doc. fst (generateGPXWithOverlays h now positions raceSetup overlays) = Inr doc"
proof -
  let ?head = "docHead raceSetup @ now @ docMeta ''Converted from race data using decyb-gpx-converter with overlays''"
  assume a: "\<forall>b \<in> set positions. \<forall>m \<in> set (moments b). \<bar>at m\<bar> \<le> 8640000000000"
    and b: "\<forall>ov \<in> set overlays. \<forall>tr \<in> set (tracks ov). \<forall>p \<in> set (points tr). numDate h (pt_at p) \<noteq> None"
  from forEachBoat_ok [OF a, of h "buildBoatToTeam raceSetup" ?head]
  obtain g where g: "fst (forEachBoat h (buildBoatToTeam raceSetup) positions ?head) = Inr g" by blast
  from forEachOverlay_ok [OF b, of g] obtain g' where "forEachOverlay h overlays g = Inr g'" by blast
  with g show ?thesis
    by (auto simp: generateGPXWithOverlays_def Let_def split: prod.splits sum.splits)
qed

lemma samplePositions_in_range:
  "\<forall>b \<in> set samplePositions. \<forall>m \<in> set (moments b). \<bar>at m\<bar> \<le> 8640000000000"
  by (simp add: samplePositions_def)

lemma sampleOverlays_in_range:
  "\<forall>ov \<in> set sampleOverlays. \<forall>tr \<in> set (tracks ov). \<forall>p \<in> set (points tr).
     numDate sampleHost (pt_at p) \<noteq> None"
  by (simp add: sampleOverlays_def sampleHost_def newDate_def)

lemma insertSorted_compareAt: "insertSorted compareAt x ys = insort_key at x ys"
  by (induction ys) (auto simp: compareAt_def)

lemma arraySort_compareAt: "arraySort compareAt xs = sort_key at xs"
  by (induction xs) (auto simp: arraySort_def insertSorted_compareAt)

lemma sorted_arraySort: "sorted (map at (arraySort compareAt xs))"
  by (simp add: arraySort_compareAt)

lemma arraySort_stable:
  "filter (\<lambda>m. at m = t) (arraySort compareAt xs) = filter (\<lambda>m. at m = t) xs"
  by (simp add: arraySort_compareAt sort_key_stable)

lemma mset_arraySort: "mset (arraySort compareAt xs) = mset xs"
  by (simp add: arraySort_compareAt)

lemma arraySort_sorted_id: "sorted (map at xs) \<Longrightarrow> arraySort compareAt xs = xs"
  by (simp add: arraySort_compareAt sort_key_id_if_sorted)

lemma arraySort_idem: "arraySort compareAt (arraySort compareAt xs) = arraySort compareAt xs"
  by (rule arraySort_sorted_id) (rule sorted_arraySort)

lemma convertBoat_fst_sortedInPlace:
  "fst (convertBoat h bt (boat\<lparr>moments := arraySort compareAt (moments boat)\<rparr>) gpx) = fst (convertBoat h bt boat gpx)"
  by (simp add: convertBoat_def Let_def arraySort_idem split: sum.splits)

lemma convertBoat_fails_any_acc:
  "fst (convertBoat h bt boat gpx) = Inl e \<Longrightarrow> fst (convertBoat h bt boat gpx') = Inl e"
  using convertBoat_acc [of h bt boat gpx] convertBoat_acc [of h bt boat gpx']
  by (auto split: prod.splits sum.splits)

lemma forEachBoat_Cons_Inr:
  "convertBoat h bt b gpx = (Inr g, b') \<Longrightarrow>
     fst (forEachBoat h bt (b # bs) gpx) = fst (forEachBoat h bt bs g) \<and>
     snd (forEachBoat h bt (b # bs) gpx) = b' # snd (forEachBoat h bt bs g)"
  by (simp add: case_prod_unfold)

lemma forEachBoat_rerun:
  "fst (forEachBoat h bt (snd (forEachBoat h bt bs gpx)) gpx') = fst (forEachBoat h bt bs gpx')"
proof (induction bs arbitrary: gpx gpx')
  case Nil
  show ?case by simp
next
  case (Cons b bs)
  let ?b' = "b\<lparr>moments := arraySort compareAt (moments b)\<rparr>"
  obtain r where r: "convertBoat h bt b gpx = (r, ?b')"
    using convertBoat_snd [of h bt b gpx] by (cases "convertBoat h bt b gpx") auto
  obtain r' where r': "convertBoat h bt b gpx' = (r', ?b')"
    using convertBoat_snd [of h bt b gpx'] by (cases "convertBoat h bt b gpx'") auto
  have r'': "convertBoat h bt ?b' gpx' = (r', ?b')"
    using convertBoat_fst_sortedInPlace [of h bt b gpx'] convertBoat_snd [of h bt ?b' gpx'] r'
    by (cases "convertBoat h bt ?b' gpx'") (auto simp: arraySort_idem)
  show ?case
  proof (cases r)
    case (Inl e)
    with r have "fst (convertBoat h bt b gpx) = Inl e" by simp
    then have "fst (convertBoat h bt b gpx') = Inl e" by (rule convertBoat_fails_any_acc)
    with r' have "r' = Inl e" by simp
    with r r' r'' Inl show ?thesis by simp
  next
    case (Inr g)
    show ?thesis
    proof (cases r')
      case (Inl e)
      with r' have "fst (convertBoat h bt b gpx') = Inl e" by simp
      then have "fst (convertBoat h bt b gpx) = Inl e" by (rule convertBoat_fails_any_acc)
      with r Inr show ?thesis by simp
    next
      case g': (Inr g')
      from r Inr have "snd (forEachBoat h bt (b # bs) gpx) = ?b' # snd (forEachBoat h bt bs g)"
        using forEachBoat_Cons_Inr [of h bt b gpx g ?b' bs] by simp
      moreover from r'' g'
      have "fst (forEachBoat h bt (?b' # snd (forEachBoat h bt bs g)) gpx')
              = fst (forEachBoat h bt (snd (forEachBoat h bt bs g)) g')"
        using forEachBoat_Cons_Inr [of h bt ?b' gpx' g' ?b' "snd (forEachBoat h bt bs g)"] by simp
      moreover from r' g'
      have "fst (forEachBoat h bt (b # bs) gpx') = fst (forEachBoat h bt bs g')"
        using forEachBoat_Cons_Inr [of h bt b gpx' g' ?b' bs] by simp
      ultimately show ?thesis using Cons.IH [of g g'] by simp
    qed
  qed
qed

lemma generateGPX_snd:
  "snd (generateGPX h now positions raceSetup)
     = snd (forEachBoat h (buildBoatToTeam raceSetup) positions
             (docHead raceSetup @ now @ docMeta ''Converted from race data using decyb-gpx-converter''))"
  by (simp add: generateGPX_def Let_def split: prod.splits sum.splits)

lemma generateGPXWithOverlays_snd:
  "snd (generateGPXWithOverlays h now positions raceSetup overlays)
     = snd (forEachBoat h (buildBoatToTeam raceSetup) positions
             (docHead raceSetup @ now
              @ docMeta ''Converted from race data using decyb-gpx-converter with overlays''))"
  by (simp add: generateGPXWithOverlays_def Let_def split: prod.splits sum.splits)

lemma generateGPX_fst:
  "fst (generateGPX h now positions raceSetup)
     = (case fst (forEachBoat h (buildBoatToTeam raceSetup) positions []) of
          Inl e \<Rightarrow> Inl e
        | Inr t \<Rightarrow> Inr (docHead raceSetup @ now
                       @ docMeta ''Converted from race data using decyb-gpx-converter''
                       @ t @ ''</gpx>''))"
  using forEachBoat_acc [of h "buildBoatToTeam raceSetup" positions
      "docHead raceSetup @ now @ docMeta ''Converted from race data using decyb-gpx-converter''"]
  by (simp add: generateGPX_def Let_def split: prod.splits sum.splits)

lemma generateGPXWithOverlays_fst:
  "fst (generateGPXWithOverlays h now positions raceSetup overlays)
     = (case fst (forEachBoat h (buildBoatToTeam raceSetup) positions []) of
          Inl e \<Rightarrow> Inl e
        | Inr t \<Rightarrow>
            (case forEachOverlay h overlays [] of
               Inl e \<Rightarrow> Inl e
             | Inr ovs \<Rightarrow> Inr (docHead raceSetup @ now
                       @ docMeta ''Converted from race data using decyb-gpx-converter with overlays''
                       @ t @ ovs @ ''</gpx>'')))"
proof -
  let ?head = "docHead raceSetup @ now
      @ docMeta ''Converted from race data using decyb-gpx-converter with overlays''"
  obtain r ps where r: "forEachBoat h (buildBoatToTeam raceSetup) positions [] = (r, ps)"
    by (cases "forEachBoat h (buildBoatToTeam raceSetup) positions []")
  show ?thesis
  proof (cases r)
    case (Inl e)
    with r show ?thesis
      using forEachBoat_acc [of h "buildBoatToTeam raceSetup" positions ?head]
      by (simp add: generateGPXWithOverlays_def Let_def)
  next
    case (Inr t)
    with r have "forEachBoat h (buildBoatToTeam raceSetup) positions ?head = (Inr (?head @ t), ps)"
      using forEachBoat_acc [of h "buildBoatToTeam raceSetup" positions ?head] by simp
    with r Inr show ?thesis
      using forEachOverlay_acc [of h overlays "?head @ t"]
      by (simp add: generateGPXWithOverlays_def Let_def split: sum.splits)
  qed
qed

lemma replaceAll_append: "replaceAll c r (a @ b) = replaceAll c r a @ replaceAll c r b"
  by (induction a) auto

lemma escape_steps_Cons:
  "replaceAll (CHR 0x27) ''&apos;''
     (replaceAll (CHR 0x22) ''&quot;''
       (replaceAll CHR ''>'' ''&gt;''
         (replaceAll CHR ''<'' ''&lt;''
           (replaceAll CHR ''&'' ''&amp;'' (x # xs)))))
   = xmlEntity x @
     replaceAll (CHR 0x27) ''&apos;''
       (replaceAll (CHR 0x22) ''&quot;''
         (replaceAll CHR ''>'' ''&gt;''
           (replaceAll CHR ''<'' ''&lt;''
             (replaceAll CHR ''&'' ''&amp;'' xs))))"
  by (simp add: xmlEntity_def)

lemma escapeXml_entities: "escapeXml s = concat (map xmlEntity s)"
proof -
  have "replaceAll (CHR 0x27) ''&apos;''
     (replaceAll (CHR 0x22) ''&quot;''
       (replaceAll CHR ''>'' ''&gt;''
         (replaceAll CHR ''<'' ''&lt;''
           (replaceAll CHR ''&'' ''&amp;'' s)))) = concat (map xmlEntity s)"
  proof (induction s)
    case Nil
    show ?case by simp
  next
    case (Cons x xs)
    have "concat (map xmlEntity (x # xs)) = xmlEntity x @ concat (map xmlEntity xs)" by simp
    with Cons show ?case by (simp only: escape_steps_Cons)
  qed
  then show ?thesis by (cases s) (simp_all add: escapeXml_def)
qed

lemma xmlEntity_plain: "\<not> isReserved c \<Longrightarrow> xmlEntity c = [c]"
  by (simp add: isReserved_def xmlEntity_def)

lemma escapeXml_plain: "\<forall>c \<in> set s. \<not> isReserved c \<Longrightarrow> escapeXml s = s"
  by (induction s) (simp_all add: escapeXml_entities xmlEntity_plain)

lemma digitChar_plain: "d < 10 \<Longrightarrow> \<not> isReserved (digitChar d)"
proof -
  assume "d < 10"
  then have "d \<in> {0, 1, 2, 3, 4, 5, 6, 7, 8, 9}" by auto
  then show ?thesis by (auto simp: digitChar_def isReserved_def)
qed

lemma natToString_plain: "\<forall>c \<in> set (natToString n). \<not> isReserved c"
proof (induction n rule: natToString.induct)
  case (1 n)
  show ?case
  proof (cases "n < 10")
    case True
    then show ?thesis by (subst natToString.simps) (simp add: digitChar_plain)
  next
    case False
    with 1 show ?thesis by (subst natToString.simps) (simp add: digitChar_plain)
  qed
qed

lemma intToString_plain: "\<forall>c \<in> set (intToString i). \<not> isReserved c"
  using natToString_plain by (simp add: intToString_def isReserved_def)

lemma forEachTeam_lookup:
  "forEachTeam ts m i =
     (case filter (\<lambda>t. team_id t = i) ts of [] \<Rightarrow> m i | f # fs \<Rightarrow> Some (last (f # fs)))"
proof (induction ts arbitrary: m)
  case Nil
  show ?case by simp
next
  case (Cons t ts)
  show ?case
    by (cases "team_id t = i"; cases "filter (\<lambda>t. team_id t = i) ts") (auto simp: Cons.IH)
qed

lemma convertBoat_out:
  "fst (convertBoat h bt boat gpx) = Inr out \<Longrightarrow>
     \<exists>pts. out = gpx @ trkOpen (bt (boat_id boat)) (boat_id boat) @ pts @ trkClose"
proof -
  assume "fst (convertBoat h bt boat gpx) = Inr out"
  with convertBoat_acc [of h bt boat gpx]
  obtain t where t: "fst (convertBoat h bt boat []) = Inr t" and out: "out = gpx @ t"
    by (auto split: prod.splits sum.splits)
  from t out show ?thesis using convertBoat_text [of h bt boat t] by auto
qed

subsection \<open>Further lemmas\<close>

lemma trkpt_eq:
  "trkpt h moment gpx =
     (case timestampToISO (at moment) of
        Inl e \<Rightarrow> Inl e
      | Inr stamp \<Rightarrow>
          Inr (gpx @ trkptHead h moment stamp
               @ (case alt moment of None \<Rightarrow> [] | Some v \<Rightarrow> eleElement h v)
               @ (case lap moment of None \<Rightarrow> [] | Some v \<Rightarrow> lapElement h v)
               @ (case pc moment of None \<Rightarrow> [] | Some v \<Rightarrow> pcElement h v)
               @ trkptTail))"
  by (simp add: trkpt_def Let_def split: sum.splits option.splits)

lemma forEachTeam_no_match:
  "\<forall>team \<in> set ts. team_id team \<noteq> i \<Longrightarrow> forEachTeam ts m i = m i"
  by (induction ts arbitrary: m) auto

lemma escapeXml_Unknown: "escapeXml ''Unknown'' = ''Unknown''"
  by (simp add: escapeXml_def)

lemma escapeXml_fallback_name:
  "escapeXml (''Boat '' @ intToString i) = ''Boat '' @ intToString i"
  using intToString_plain [of i] by (intro escapeXml_plain) (auto simp: isReserved_def)

lemma escapeXml_fallback_desc:
  "escapeXml (''Boat ID: '' @ intToString i @ '', Owner: Unknown, Model: Unknown, Country: Unknown'')
     = ''Boat ID: '' @ intToString i @ '', Owner: Unknown, Model: Unknown, Country: Unknown''"
  using intToString_plain [of i] by (intro escapeXml_plain) (auto simp: isReserved_def)

lemma trkOpen_None:
  "trkOpen None i =
     ''  <trk>'' @ NL
     @ ''    <name>Boat '' @ intToString i @ '' (Unknown)</name>'' @ NL
     @ ''    <desc>Boat ID: '' @ intToString i
     @ '', Owner: Unknown, Model: Unknown, Country: Unknown</desc>'' @ NL
     @ ''    <trkseg>'' @ NL"
proof -
  have n: "boatNameOf None i = ''Boat '' @ intToString i" by (simp add: boatNameOf_def)
  have o: "ownerOf None = ''Unknown''" by (simp add: ownerOf_def)
  have d: "descOf None i
      = ''Boat ID: '' @ intToString i @ '', Owner: Unknown, Model: Unknown, Country: Unknown''"
    by (simp add: descOf_def ownerOf_def modelOf_def countryOf_def sailNumberOf_def)
  show ?thesis
    unfolding trkOpen_def n o d escapeXml_Unknown escapeXml_fallback_name escapeXml_fallback_desc
    by simp
qed

lemma orElse_absentOrEmpty: "orElse v d = (if absentOrEmpty v then d else the v)"
  by (cases v) (auto simp: orElse_def absentOrEmpty_def)

lemma matchHere_groups: "matchHere r s = Some (caps, rest) \<Longrightarrow> length caps = groups r"
proof (induction r arbitrary: s caps rest)
  case Nil
  then show ?case by simp
next
  case (Cons it r)
  show ?case
  proof (cases it)
    case (Lit l)
    with Cons.prems have "matchHere r (drop (length l) s) = Some (caps, rest)"
      by (auto split: if_splits)
    from Cons.IH [OF this] Lit show ?thesis by simp
  next
    case (Star greedy c captured)
    with Cons.prems obtain n where
      "(case matchHere r (drop n s) of None \<Rightarrow> None
        | Some (caps', rest') \<Rightarrow> Some (if captured then take n s # caps' else caps', rest'))
       = Some (caps, rest)"
      by (auto simp: Let_def dest!: firstSome_SomeD)
    then obtain caps' where "matchHere r (drop n s) = Some (caps', rest)"
      and "caps = (if captured then take n s # caps' else caps')"
      by (auto split: option.splits)
    with Cons.IH [of "drop n s" caps' rest] Star show ?thesis by simp
  qed
qed

lemma exec_groups: "exec r s = Some (caps, rest) \<Longrightarrow> length caps = groups r"
proof (induction s)
  case Nil
  then show ?case using matchHere_groups [of r "[]" caps rest] by simp
next
  case (Cons x xs)
  then show ?case
    using matchHere_groups [of r "x # xs" caps rest]
    by (auto split: option.splits)
qed

text \<open>Each pattern has as many captures as the code reads from its match.\<close>

lemma exec_captures:
  "exec trackRegex s = Some (caps, rest) \<Longrightarrow> length caps = 1"
  "exec trkptRegex s = Some (caps, rest) \<Longrightarrow> length caps = 3"
  "exec timeRegex s = Some (caps, rest) \<Longrightarrow> length caps = 1"
  "exec nameRegex s = Some (caps, rest) \<Longrightarrow> length caps = 1"
  by (auto dest!: exec_groups simp: trackRegex_def trkptRegex_def timeRegex_def nameRegex_def)

declare trackLoop.simps [simp del] pointLoop.simps [simp del]

lemma trackLoop_points: "\<forall>track \<in> set (trackLoop h gpxData). points track \<noteq> []"
proof (induction "length gpxData" arbitrary: gpxData rule: less_induct)
  case less
  show ?case
  proof (cases "exec trackRegex gpxData")
    case None
    then show ?thesis by (simp add: trackLoop.simps [of h gpxData])
  next
    case (Some m)
    obtain match rest where m: "m = (match, rest)" by (cases m)
    with Some have "length rest < length gpxData" by (simp add: exec_track_shorter)
    then have IH: "\<forall>track \<in> set (trackLoop h rest). points track \<noteq> []" by (rule less)
    from Some m IH show ?thesis
      by (simp add: trackLoop.simps [of h gpxData] Let_def)
  qed
qed

lemma timestampToISO_fails_iff:
  "timestampToISO t = Inl RangeError \<longleftrightarrow> \<bar>t\<bar> > 8640000000000"
proof (cases "\<bar>t\<bar> \<le> 8640000000000")
  case True
  from timestampToISO_ok [OF this] True show ?thesis by auto
next
  case False
  then have "\<not> \<bar>t * 1000\<bar> \<le> 8640000000000000" by (simp add: abs_mult)
  with False show ?thesis by (simp add: timestampToISO_def newDate_def toISOString_def)
qed

lemma forEachMoment_Inr_in_range:
  "forEachMoment h ms gpx = Inr t \<Longrightarrow> \<forall>m \<in> set ms. \<bar>at m\<bar> \<le> 8640000000000"
proof (induction ms arbitrary: gpx t)
  case Nil
  show ?case by simp
next
  case (Cons m ms)
  from Cons.prems obtain g where g: "trkpt h m gpx = Inr g" and r: "forEachMoment h ms g = Inr t"
    by (auto split: sum.splits)
  from g have "timestampToISO (at m) \<noteq> Inl RangeError"
    by (auto simp: trkpt_def split: sum.splits)
  then have "\<bar>at m\<bar> \<le> 8640000000000" by (simp add: timestampToISO_fails_iff)
  with Cons.IH [OF r] show ?case by simp
qed

lemma convertBoat_Inr_in_range:
  "fst (convertBoat h bt b gpx) = Inr t \<Longrightarrow> \<forall>m \<in> set (moments b). \<bar>at m\<bar> \<le> 8640000000000"
proof -
  assume "fst (convertBoat h bt b gpx) = Inr t"
  then obtain g where
    "forEachMoment h (arraySort compareAt (moments b)) (gpx @ trkOpen (bt (boat_id b)) (boat_id b)) = Inr g"
    by (auto simp: convertBoat_def Let_def split: sum.splits)
  from forEachMoment_Inr_in_range [OF this] show ?thesis by (simp add: set_arraySort)
qed

lemma forEachBoat_Inr_in_range:
  "fst (forEachBoat h bt bs gpx) = Inr t \<Longrightarrow>
     \<forall>b \<in> set bs. \<forall>m \<in> set (moments b). \<bar>at m\<bar> \<le> 8640000000000"
proof (induction bs arbitrary: gpx t)
  case Nil
  show ?case by simp
next
  case (Cons b bs)
  obtain r b' where r: "convertBoat h bt b gpx = (r, b')" by (cases "convertBoat h bt b gpx")
  with Cons.prems obtain g where g: "r = Inr g" by (cases r) auto
  with r have "fst (convertBoat h bt b gpx) = Inr g" by simp
  from convertBoat_Inr_in_range [OF this]
  have here: "\<forall>m \<in> set (moments b). \<bar>at m\<bar> \<le> 8640000000000" .
  from Cons.prems r g have "fst (forEachBoat h bt bs g) = Inr t"
    using forEachBoat_Cons_Inr [of h bt b gpx g b' bs] by simp
  from Cons.IH [OF this] here show ?case by simp
qed

subsection \<open>The text of a track element\<close>

lemma generateGPX_blocks:
  "(fst (generateGPX h now positions raceSetup) = Inr doc \<longrightarrow>
      (\<exists>ptss. map (\<lambda>boat. forEachMoment h (arraySort compareAt (moments boat)) []) positions
                 = map Inr ptss \<and>
              doc = docHead raceSetup @ now
                    @ docMeta ''Converted from race data using decyb-gpx-converter''
                    @ concat (map2 (boatTrackBlock (buildBoatToTeam raceSetup)) positions ptss)
                    @ ''</gpx>'')) \<and>
   (fst (generateGPXWithOverlays h now positions raceSetup overlays) = Inr doc' \<longrightarrow>
      (\<exists>ptss ovs. map (\<lambda>boat. forEachMoment h (arraySort compareAt (moments boat)) []) positions
                     = map Inr ptss \<and>
              forEachOverlay h overlays [] = Inr ovs \<and>
              doc' = docHead raceSetup @ now
                    @ docMeta ''Converted from race data using decyb-gpx-converter with overlays''
                    @ concat (map2 (boatTrackBlock (buildBoatToTeam raceSetup)) positions ptss)
                    @ ovs @ ''</gpx>''))"
proof (intro conjI impI)
  let ?bt = "buildBoatToTeam raceSetup"
  let ?head = "docHead raceSetup @ now @ docMeta ''Converted from race data using decyb-gpx-converter''"
  assume ok: "fst (generateGPX h now positions raceSetup) = Inr doc"
  then obtain g where g: "fst (forEachBoat h ?bt positions ?head) = Inr g" and doc: "doc = g @ ''</gpx>''"
    by (auto simp: generateGPX_def Let_def split: prod.splits sum.splits)
  from g forEachBoat_acc [of h ?bt positions ?head]
  obtain t where t: "fst (forEachBoat h ?bt positions []) = Inr t" and gt: "g = ?head @ t"
    by (auto split: prod.splits sum.splits)
  from forEachBoat_texts [OF t] obtain ptss where
    "map (\<lambda>boat. forEachMoment h (arraySort compareAt (moments boat)) []) positions = map Inr ptss"
    and "t = concat (map2 (boatTrackBlock ?bt) positions ptss)"
    unfolding boatTrackBlock_def by blast
  with doc gt show "\<exists>ptss. map (\<lambda>boat. forEachMoment h (arraySort compareAt (moments boat)) []) positions
                 = map Inr ptss \<and>
              doc = docHead raceSetup @ now
                    @ docMeta ''Converted from race data using decyb-gpx-converter''
                    @ concat (map2 (boatTrackBlock (buildBoatToTeam raceSetup)) positions ptss)
                    @ ''</gpx>''"
    by auto
next
  let ?bt = "buildBoatToTeam raceSetup"
  let ?head = "docHead raceSetup @ now @ docMeta ''Converted from race data using decyb-gpx-converter with overlays''"
  assume ok: "fst (generateGPXWithOverlays h now positions raceSetup overlays) = Inr doc'"
  then obtain g g' where g: "fst (forEachBoat h ?bt positions ?head) = Inr g"
    and g': "forEachOverlay h overlays g = Inr g'" and doc: "doc' = g' @ ''</gpx>''"
    by (auto simp: generateGPXWithOverlays_def Let_def split: prod.splits sum.splits)
  from g forEachBoat_acc [of h ?bt positions ?head]
  obtain t where t: "fst (forEachBoat h ?bt positions []) = Inr t" and gt: "g = ?head @ t"
    by (auto split: prod.splits sum.splits)
  from g' forEachOverlay_acc [of h overlays g]
  obtain ovs where ovs: "forEachOverlay h overlays [] = Inr ovs" and g'_eq: "g' = g @ ovs"
    by (auto split: sum.splits)
  from forEachBoat_texts [OF t] obtain ptss where
    "map (\<lambda>boat. forEachMoment h (arraySort compareAt (moments boat)) []) positions = map Inr ptss"
    and "t = concat (map2 (boatTrackBlock ?bt) positions ptss)"
    unfolding boatTrackBlock_def by blast
  with doc gt ovs g'_eq show "\<exists>ptss ovs. map (\<lambda>boat. forEachMoment h (arraySort compareAt (moments boat)) []) positions
                     = map Inr ptss \<and>
              forEachOverlay h overlays [] = Inr ovs \<and>
              doc' = docHead raceSetup @ now
                    @ docMeta ''Converted from race data using decyb-gpx-converter with overlays''
                    @ concat (map2 (boatTrackBlock (buildBoatToTeam raceSetup)) positions ptss)
                    @ ovs @ ''</gpx>''"
    by auto
qed

lemma points_texts_of_boats:
  "map (\<lambda>boat. forEachMoment h (arraySort compareAt (moments boat)) []) bs = map Inr ptss \<Longrightarrow>
     \<exists>textss. map (\<lambda>boat. map (\<lambda>m. trkpt h m []) (arraySort compareAt (moments boat))) bs
                 = map (map Inr) textss \<and>
              ptss = map concat textss"
proof (induction bs arbitrary: ptss)
  case Nil
  then show ?case by simp
next
  case (Cons b bs)
  from Cons.prems obtain pts rest where ptss: "ptss = pts # rest"
    and pts: "forEachMoment h (arraySort compareAt (moments b)) [] = Inr pts"
    and rest: "map (\<lambda>boat. forEachMoment h (arraySort compareAt (moments boat)) []) bs = map Inr rest"
    by (cases ptss) auto
  from forEachMoment_texts [OF pts] obtain texts where
    t: "map (\<lambda>m. trkpt h m []) (arraySort compareAt (moments b)) = map Inr texts" "pts = concat texts"
    by blast
  from Cons.IH [OF rest] obtain textss where
    ts: "map (\<lambda>boat. map (\<lambda>m. trkpt h m []) (arraySort compareAt (moments boat))) bs
           = map (map Inr) textss" "rest = map concat textss"
    by blast
  from t ts ptss
  have "map (\<lambda>boat. map (\<lambda>m. trkpt h m []) (arraySort compareAt (moments boat))) (b # bs)
          = map (map Inr) (texts # textss) \<and> ptss = map concat (texts # textss)"
    by simp
  then show ?case by blast
qed

lemma map2_map_concat:
  "map2 F xs (map concat ys) = map2 (\<lambda>x texts. F x (concat texts)) xs ys"
  by (simp add: zip_map2 case_prod_unfold)

lemma generateGPX_blocks_texts:
  "(fst (generateGPX h now positions raceSetup) = Inr doc \<longrightarrow>
      (\<exists>textss.
          map (\<lambda>boat. map (\<lambda>m. trkpt h m []) (arraySort compareAt (moments boat))) positions
            = map (map Inr) textss \<and>
          doc = docHead raceSetup @ now
                @ docMeta ''Converted from race data using decyb-gpx-converter''
                @ concat (map2
                    (\<lambda>boat texts. boatTrackBlock (buildBoatToTeam raceSetup) boat (concat texts))
                    positions textss)
                @ ''</gpx>'')) \<and>
   (fst (generateGPXWithOverlays h now positions raceSetup overlays) = Inr doc' \<longrightarrow>
      (\<exists>textss ovs.
          map (\<lambda>boat. map (\<lambda>m. trkpt h m []) (arraySort compareAt (moments boat))) positions
            = map (map Inr) textss \<and>
          forEachOverlay h overlays [] = Inr ovs \<and>
          doc' = docHead raceSetup @ now
                @ docMeta ''Converted from race data using decyb-gpx-converter with overlays''
                @ concat (map2
                    (\<lambda>boat texts. boatTrackBlock (buildBoatToTeam raceSetup) boat (concat texts))
                    positions textss)
                @ ovs @ ''</gpx>''))"
proof (intro conjI impI)
  assume "fst (generateGPX h now positions raceSetup) = Inr doc"
  with generateGPX_blocks [of h now positions raceSetup doc overlays doc']
  obtain ptss where p: "map (\<lambda>boat. forEachMoment h (arraySort compareAt (moments boat)) []) positions
                 = map Inr ptss"
    and d: "doc = docHead raceSetup @ now
                    @ docMeta ''Converted from race data using decyb-gpx-converter''
                    @ concat (map2 (boatTrackBlock (buildBoatToTeam raceSetup)) positions ptss)
                    @ ''</gpx>''"
    by blast
  from points_texts_of_boats [OF p] obtain textss where
    t: "map (\<lambda>boat. map (\<lambda>m. trkpt h m []) (arraySort compareAt (moments boat))) positions
          = map (map Inr) textss" and e: "ptss = map concat textss"
    by blast
  from d have "doc = docHead raceSetup @ now
                @ docMeta ''Converted from race data using decyb-gpx-converter''
                @ concat (map2
                    (\<lambda>boat texts. boatTrackBlock (buildBoatToTeam raceSetup) boat (concat texts))
                    positions textss)
                @ ''</gpx>''"
    unfolding e map2_map_concat .
  with t show "\<exists>textss.
          map (\<lambda>boat. map (\<lambda>m. trkpt h m []) (arraySort compareAt (moments boat))) positions
            = map (map Inr) textss \<and>
          doc = docHead raceSetup @ now
                @ docMeta ''Converted from race data using decyb-gpx-converter''
                @ concat (map2
                    (\<lambda>boat texts. boatTrackBlock (buildBoatToTeam raceSetup) boat (concat texts))
                    positions textss)
                @ ''</gpx>''"
    by blast
next
  assume "fst (generateGPXWithOverlays h now positions raceSetup overlays) = Inr doc'"
  with generateGPX_blocks [of h now positions raceSetup doc overlays doc']
  obtain ptss ovs where p: "map (\<lambda>boat. forEachMoment h (arraySort compareAt (moments boat)) []) positions
                 = map Inr ptss"
    and o: "forEachOverlay h overlays [] = Inr ovs"
    and d: "doc' = docHead raceSetup @ now
                    @ docMeta ''Converted from race data using decyb-gpx-converter with overlays''
                    @ concat (map2 (boatTrackBlock (buildBoatToTeam raceSetup)) positions ptss)
                    @ ovs @ ''</gpx>''"
    by blast
  from points_texts_of_boats [OF p] obtain textss where
    t: "map (\<lambda>boat. map (\<lambda>m. trkpt h m []) (arraySort compareAt (moments boat))) positions
          = map (map Inr) textss" and e: "ptss = map concat textss"
    by blast
  from d have "doc' = docHead raceSetup @ now
                @ docMeta ''Converted from race data using decyb-gpx-converter with overlays''
                @ concat (map2
                    (\<lambda>boat texts. boatTrackBlock (buildBoatToTeam raceSetup) boat (concat texts))
                    positions textss)
                @ ovs @ ''</gpx>''"
    unfolding e map2_map_concat .
  with t o show "\<exists>textss ovs.
          map (\<lambda>boat. map (\<lambda>m. trkpt h m []) (arraySort compareAt (moments boat))) positions
            = map (map Inr) textss \<and>
          forEachOverlay h overlays [] = Inr ovs \<and>
          doc' = docHead raceSetup @ now
                @ docMeta ''Converted from race data using decyb-gpx-converter with overlays''
                @ concat (map2
                    (\<lambda>boat texts. boatTrackBlock (buildBoatToTeam raceSetup) boat (concat texts))
                    positions textss)
                @ ovs @ ''</gpx>''"
    by blast
qed

lemma boatTrackBlock_text:
  "boatTrackBlock (buildBoatToTeam raceSetup) boat (concat texts) =
                  ''  <trk>'' @ NL
                  @ ''    <name>''
                  @ escapeXml (boatNameOf (buildBoatToTeam raceSetup (boat_id boat)) (boat_id boat))
                  @ '' ('' @ escapeXml (ownerOf (buildBoatToTeam raceSetup (boat_id boat)))
                  @ '')</name>'' @ NL
                  @ ''    <desc>''
                  @ escapeXml (descOf (buildBoatToTeam raceSetup (boat_id boat)) (boat_id boat))
                  @ ''</desc>'' @ NL
                  @ ''    <trkseg>'' @ NL
                  @ concat texts
                  @ ''    </trkseg>'' @ NL
                  @ ''  </trk>'' @ NL"
  by (simp add: boatTrackBlock_def trkOpen_def trkClose_def)

lemma descOf_Some_text:
  "descOf (Some team) bid =
     ''Boat ID: '' @ intToString bid
     @ '', Owner: '' @ (if absentOrEmpty (owner team) then ''Unknown'' else the (owner team))
     @ '', Model: '' @ (if absentOrEmpty (model team) then ''Unknown'' else the (model team))
     @ '', Country: '' @ (if absentOrEmpty (country team) then ''Unknown'' else the (country team))
     @ (if absentOrEmpty (sail team) then [] else '', Sail: '' @ the (sail team))"
proof -
  have s: "sailNumberOf (Some team) = (if absentOrEmpty (sail team) then [] else the (sail team))"
    by (simp add: sailNumberOf_def orElse_absentOrEmpty)
  have n: "absentOrEmpty (sail team) \<or> the (sail team) \<noteq> []"
    by (cases "sail team") (auto simp: absentOrEmpty_def)
  show ?thesis
    unfolding descOf_def Let_def s ownerOf_def modelOf_def countryOf_def orElse_absentOrEmpty
    using n by auto
qed

lemma trkOpen_Some_text:
  "trkOpen (Some team) bid = ''  <trk>'' @ NL
           @ ''    <name>''
           @ escapeXml (if absentOrEmpty (name team) then ''Boat '' @ intToString bid
                        else the (name team))
           @ '' (''
           @ escapeXml (if absentOrEmpty (owner team) then ''Unknown'' else the (owner team))
           @ '')</name>'' @ NL
           @ ''    <desc>''
           @ escapeXml
               (''Boat ID: '' @ intToString bid
                @ '', Owner: ''
                @ (if absentOrEmpty (owner team) then ''Unknown'' else the (owner team))
                @ '', Model: ''
                @ (if absentOrEmpty (model team) then ''Unknown'' else the (model team))
                @ '', Country: ''
                @ (if absentOrEmpty (country team) then ''Unknown'' else the (country team))
                @ (if absentOrEmpty (sail team) then [] else '', Sail: '' @ the (sail team)))
           @ ''</desc>'' @ NL
           @ ''    <trkseg>'' @ NL"
  unfolding trkOpen_def descOf_Some_text boatNameOf_def ownerOf_def orElse_absentOrEmpty
  by (simp only: option.case append_assoc)

section \<open>Properties of the converter\<close>

text \<open>
  C1. When \<open>generateGPX\<close> or \<open>generateGPXWithOverlays\<close> returns a document, the document
  is the head, then exactly one \<open>trk\<close> element per PositionRecord in the order of the input
  array (then the overlay tracks), then the closing tag. Each element opens with the
  \<open>trk\<close> line, the boat's name and description and the \<open>trkseg\<close> line, holds the texts of
  the boat's points, one for each of its moments, and closes its \<open>trkseg\<close> and \<open>trk\<close>; a boat
  without moments has no point text and still has its element.
\<close>

theorem generateGPX_one_track_per_boat:
  "(fst (generateGPX h now positions raceSetup) = Inr doc \<longrightarrow>
      (\<exists>textss.
          map (\<lambda>boat. map (\<lambda>m. trkpt h m []) (arraySort compareAt (moments boat))) positions
            = map (map Inr) textss \<and>
          doc = docHead raceSetup @ now
                @ docMeta ''Converted from race data using decyb-gpx-converter''
                @ concat (map2
                    (\<lambda>boat texts.
                  ''  <trk>'' @ NL
                  @ ''    <name>''
                  @ escapeXml (boatNameOf (buildBoatToTeam raceSetup (boat_id boat)) (boat_id boat))
                  @ '' ('' @ escapeXml (ownerOf (buildBoatToTeam raceSetup (boat_id boat)))
                  @ '')</name>'' @ NL
                  @ ''    <desc>''
                  @ escapeXml (descOf (buildBoatToTeam raceSetup (boat_id boat)) (boat_id boat))
                  @ ''</desc>'' @ NL
                  @ ''    <trkseg>'' @ NL
                  @ concat texts
                  @ ''    </trkseg>'' @ NL
                  @ ''  </trk>'' @ NL)
                    positions textss)
                @ ''</gpx>'')) \<and>
   (fst (generateGPXWithOverlays h now positions raceSetup overlays) = Inr doc' \<longrightarrow>
      (\<exists>textss ovs.
          map (\<lambda>boat. map (\<lambda>m. trkpt h m []) (arraySort compareAt (moments boat))) positions
            = map (map Inr) textss \<and>
          forEachOverlay h overlays [] = Inr ovs \<and>
          doc' = docHead raceSetup @ now
                @ docMeta ''Converted from race data using decyb-gpx-converter with overlays''
                @ concat (map2
                    (\<lambda>boat texts.
                  ''  <trk>'' @ NL
                  @ ''    <name>''
                  @ escapeXml (boatNameOf (buildBoatToTeam raceSetup (boat_id boat)) (boat_id boat))
                  @ '' ('' @ escapeXml (ownerOf (buildBoatToTeam raceSetup (boat_id boat)))
                  @ '')</name>'' @ NL
                  @ ''    <desc>''
                  @ escapeXml (descOf (buildBoatToTeam raceSetup (boat_id boat)) (boat_id boat))
                  @ ''</desc>'' @ NL
                  @ ''    <trkseg>'' @ NL
                  @ concat texts
                  @ ''    </trkseg>'' @ NL
                  @ ''  </trk>'' @ NL)
                    positions textss)
                @ ovs @ ''</gpx>''))"
  using generateGPX_blocks_texts [of h now positions raceSetup doc overlays doc']
  unfolding boatTrackBlock_text .

theorem generateGPX_one_track_per_boat_witness:
  "length samplePositions = 3 \<and>
   moments (samplePositions ! 1) = [] \<and>
   map (\<lambda>m. trkpt sampleHost m []) (arraySort compareAt (moments (samplePositions ! 1))) = [] \<and>
   (\<exists>doc doc'.
     fst (generateGPX sampleHost sampleNow samplePositions sampleSetup) = Inr doc \<and>
     fst (generateGPXWithOverlays sampleHost sampleNow samplePositions sampleSetup sampleOverlays)
       = Inr doc' \<and>
     (\<exists>textss.
          map (\<lambda>boat. map (\<lambda>m. trkpt sampleHost m []) (arraySort compareAt (moments boat))) samplePositions
            = map (map Inr) textss \<and>
          doc = docHead sampleSetup @ sampleNow
                @ docMeta ''Converted from race data using decyb-gpx-converter''
                @ concat (map2
                    (\<lambda>boat texts.
                  ''  <trk>'' @ NL
                  @ ''    <name>''
                  @ escapeXml (boatNameOf (buildBoatToTeam sampleSetup (boat_id boat)) (boat_id boat))
                  @ '' ('' @ escapeXml (ownerOf (buildBoatToTeam sampleSetup (boat_id boat)))
                  @ '')</name>'' @ NL
                  @ ''    <desc>''
                  @ escapeXml (descOf (buildBoatToTeam sampleSetup (boat_id boat)) (boat_id boat))
                  @ ''</desc>'' @ NL
                  @ ''    <trkseg>'' @ NL
                  @ concat texts
                  @ ''    </trkseg>'' @ NL
                  @ ''  </trk>'' @ NL)
                    samplePositions textss)
                @ ''</gpx>'') \<and>
        (\<exists>textss ovs.
          map (\<lambda>boat. map (\<lambda>m. trkpt sampleHost m []) (arraySort compareAt (moments boat))) samplePositions
            = map (map Inr) textss \<and>
          forEachOverlay sampleHost sampleOverlays [] = Inr ovs \<and>
          doc' = docHead sampleSetup @ sampleNow
                @ docMeta ''Converted from race data using decyb-gpx-converter with overlays''
                @ concat (map2
                    (\<lambda>boat texts.
                  ''  <trk>'' @ NL
                  @ ''    <name>''
                  @ escapeXml (boatNameOf (buildBoatToTeam sampleSetup (boat_id boat)) (boat_id boat))
                  @ '' ('' @ escapeXml (ownerOf (buildBoatToTeam sampleSetup (boat_id boat)))
                  @ '')</name>'' @ NL
                  @ ''    <desc>''
                  @ escapeXml (descOf (buildBoatToTeam sampleSetup (boat_id boat)) (boat_id boat))
                  @ ''</desc>'' @ NL
                  @ ''    <trkseg>'' @ NL
                  @ concat texts
                  @ ''    </trkseg>'' @ NL
                  @ ''  </trk>'' @ NL)
                    samplePositions textss)
                @ ovs @ ''</gpx>''))"
proof -
  have l: "length samplePositions = 3" by (simp add: samplePositions_def)
  have e: "moments (samplePositions ! 1) = []" by (simp add: samplePositions_def)
  then have e': "map (\<lambda>m. trkpt sampleHost m []) (arraySort compareAt (moments (samplePositions ! 1))) = []"
    by (simp add: arraySort_def)
  from generateGPX_ok [OF samplePositions_in_range, of sampleHost sampleNow sampleSetup]
  obtain doc where d:
    "fst (generateGPX sampleHost sampleNow samplePositions sampleSetup) = Inr doc"
    by blast
  from generateGPXWithOverlays_ok [OF samplePositions_in_range sampleOverlays_in_range,
         of sampleNow sampleSetup]
  obtain doc' where d':
    "fst (generateGPXWithOverlays sampleHost sampleNow samplePositions sampleSetup sampleOverlays)
       = Inr doc'"
    by blast
  from generateGPX_one_track_per_boat
         [of sampleHost sampleNow samplePositions sampleSetup doc sampleOverlays doc'] d d' l e e'
  show ?thesis by blast
qed

text \<open>
  C2. The points of a boat's track are written in the order of the sorted moments, which
  is non-decreasing in the timestamp and keeps moments with equal timestamps in their
  original relative order.
\<close>

theorem track_points_sorted_stable:
  "sorted (map at (arraySort compareAt (moments boat))) \<and>
   (\<forall>t. filter (\<lambda>m. at m = t) (arraySort compareAt (moments boat))
          = filter (\<lambda>m. at m = t) (moments boat)) \<and>
   (fst (convertBoat h boatToTeam boat gpx) = Inr out \<longrightarrow>
      (\<exists>texts. map (\<lambda>m. trkpt h m []) (arraySort compareAt (moments boat)) = map Inr texts \<and>
         out = gpx @ trkOpen (boatToTeam (boat_id boat)) (boat_id boat) @ concat texts @ trkClose))"
proof (intro conjI allI impI)
  show "sorted (map at (arraySort compareAt (moments boat)))" by (rule sorted_arraySort)
next
  fix t
  show "filter (\<lambda>m. at m = t) (arraySort compareAt (moments boat)) = filter (\<lambda>m. at m = t) (moments boat)"
    by (rule arraySort_stable)
next
  assume "fst (convertBoat h boatToTeam boat gpx) = Inr out"
  with convertBoat_acc [of h boatToTeam boat gpx]
  obtain t where t: "fst (convertBoat h boatToTeam boat []) = Inr t" and out: "out = gpx @ t"
    by (auto split: prod.splits sum.splits)
  from t obtain pts where pts: "forEachMoment h (arraySort compareAt (moments boat)) [] = Inr pts"
    and t_eq: "t = trkOpen (boatToTeam (boat_id boat)) (boat_id boat) @ pts @ trkClose"
    using convertBoat_text [of h boatToTeam boat t] by blast
  from forEachMoment_texts [OF pts] obtain texts where
    "map (\<lambda>m. trkpt h m []) (arraySort compareAt (moments boat)) = map Inr texts" "pts = concat texts"
    by blast
  with out t_eq
  show "\<exists>texts. map (\<lambda>m. trkpt h m []) (arraySort compareAt (moments boat)) = map Inr texts \<and>
         out = gpx @ trkOpen (boatToTeam (boat_id boat)) (boat_id boat) @ concat texts @ trkClose"
    by auto
qed

theorem track_points_sorted_stable_witness:
  "map at (arraySort compareAt (moments (hd samplePositions))) = [1753333200, 1753333260, 1753333260] \<and>
   map dtf (arraySort compareAt (moments (hd samplePositions))) = [None, Some (Some 5), Some (Some 4)] \<and>
   (\<exists>out. fst (convertBoat sampleHost (buildBoatToTeam sampleSetup) (hd samplePositions) []) = Inr out \<and>
      (\<exists>texts. map (\<lambda>m. trkpt sampleHost m []) (arraySort compareAt (moments (hd samplePositions)))
                  = map Inr texts \<and>
         out = trkOpen (buildBoatToTeam sampleSetup (boat_id (hd samplePositions)))
                 (boat_id (hd samplePositions)) @ concat texts @ trkClose))"
proof -
  have "\<forall>m \<in> set (moments (hd samplePositions)). \<bar>at m\<bar> \<le> 8640000000000"
    by (simp add: samplePositions_def)
  from convertBoat_ok [OF this, of sampleHost "buildBoatToTeam sampleSetup" "[]"]
  obtain out where out:
    "fst (convertBoat sampleHost (buildBoatToTeam sampleSetup) (hd samplePositions) []) = Inr out"
    by blast
  have s: "map at (arraySort compareAt (moments (hd samplePositions))) = [1753333200, 1753333260, 1753333260]"
    "map dtf (arraySort compareAt (moments (hd samplePositions))) = [None, Some (Some 5), Some (Some 4)]"
    by (simp_all add: samplePositions_def arraySort_def compareAt_def)
  from track_points_sorted_stable
         [of "hd samplePositions" sampleHost "buildBoatToTeam sampleSetup" "[]" out] out s
  show ?thesis by auto
qed

text \<open>
  C3. The text of a track point is its \<open>trkpt\<close> line, its time and its extensions block. The
  block holds the \<open>dtf\<close> element, always there, with the text of the moment's \<open>dtf\<close> and with
  \<open>0\<close> when the moment has no \<open>dtf\<close> (or a falsy one, which is 0 itself), then the \<open>ele\<close>,
  \<open>lap\<close> and \<open>pc\<close> elements with the texts of \<open>alt\<close>, \<open>lap\<close> and \<open>pc\<close>, each there exactly when
  the moment has the field, and nothing at all in the place of a missing one.
\<close>

theorem extensions_of_a_point:
  "trkpt h moment gpx = Inr out \<longrightarrow>
     (\<exists>stamp. timestampToISO (at moment) = Inr stamp \<and>
        out = gpx
         @ ''      <trkpt lat='' @ DQ @ numToString h (lat moment) @ DQ
         @ '' lon='' @ DQ @ numToString h (lon moment) @ DQ @ ''>'' @ NL
         @ ''        <time>'' @ stamp @ ''</time>'' @ NL
         @ ''        <extensions>'' @ NL
         @ ''          <dtf>''
         @ (case dtf moment of None \<Rightarrow> ''0''
            | Some d \<Rightarrow> if truthy h d then numToString h d else ''0'')
         @ ''</dtf>''
         @ (case alt moment of None \<Rightarrow> []
            | Some v \<Rightarrow> NL @ ''          <ele>'' @ numToString h v @ ''</ele>'')
         @ (case lap moment of None \<Rightarrow> []
            | Some v \<Rightarrow> NL @ ''          <lap>'' @ numToString h v @ ''</lap>'')
         @ (case pc moment of None \<Rightarrow> []
            | Some v \<Rightarrow> NL @ ''          <pc>'' @ numToString h v @ ''</pc>'')
         @ NL @ ''        </extensions>'' @ NL @ ''      </trkpt>'' @ NL)"
proof
  assume "trkpt h moment gpx = Inr out"
  then obtain stamp where ts: "timestampToISO (at moment) = Inr stamp" and out:
    "out = gpx @ trkptHead h moment stamp
       @ (case alt moment of None \<Rightarrow> [] | Some v \<Rightarrow> eleElement h v)
       @ (case lap moment of None \<Rightarrow> [] | Some v \<Rightarrow> lapElement h v)
       @ (case pc moment of None \<Rightarrow> [] | Some v \<Rightarrow> pcElement h v)
       @ trkptTail"
    using trkpt_eq [of h moment gpx] by (cases "timestampToISO (at moment)") auto
  have head: "trkptHead h moment stamp =
           ''      <trkpt lat='' @ DQ @ numToString h (lat moment) @ DQ
         @ '' lon='' @ DQ @ numToString h (lon moment) @ DQ @ ''>'' @ NL
         @ ''        <time>'' @ stamp @ ''</time>'' @ NL
         @ ''        <extensions>'' @ NL
         @ ''          <dtf>''
         @ (case dtf moment of None \<Rightarrow> ''0''
            | Some d \<Rightarrow> if truthy h d then numToString h d else ''0'')
         @ ''</dtf>''"
    unfolding trkptHead_def dtfText_def ..
  have ele: "(case alt moment of None \<Rightarrow> [] | Some v \<Rightarrow> eleElement h v)
      = (case alt moment of None \<Rightarrow> []
            | Some v \<Rightarrow> NL @ ''          <ele>'' @ numToString h v @ ''</ele>'')"
    unfolding eleElement_def ..
  have lap: "(case lap moment of None \<Rightarrow> [] | Some v \<Rightarrow> lapElement h v)
      = (case lap moment of None \<Rightarrow> []
            | Some v \<Rightarrow> NL @ ''          <lap>'' @ numToString h v @ ''</lap>'')"
    unfolding lapElement_def ..
  have pc: "(case pc moment of None \<Rightarrow> [] | Some v \<Rightarrow> pcElement h v)
      = (case pc moment of None \<Rightarrow> []
            | Some v \<Rightarrow> NL @ ''          <pc>'' @ numToString h v @ ''</pc>'')"
    unfolding pcElement_def ..
  have tail: "trkptTail = NL @ ''        </extensions>'' @ NL @ ''      </trkpt>'' @ NL"
    unfolding trkptTail_def ..
  have full: "out = gpx
         @ ''      <trkpt lat='' @ DQ @ numToString h (lat moment) @ DQ
         @ '' lon='' @ DQ @ numToString h (lon moment) @ DQ @ ''>'' @ NL
         @ ''        <time>'' @ stamp @ ''</time>'' @ NL
         @ ''        <extensions>'' @ NL
         @ ''          <dtf>''
         @ (case dtf moment of None \<Rightarrow> ''0''
            | Some d \<Rightarrow> if truthy h d then numToString h d else ''0'')
         @ ''</dtf>''
         @ (case alt moment of None \<Rightarrow> []
            | Some v \<Rightarrow> NL @ ''          <ele>'' @ numToString h v @ ''</ele>'')
         @ (case lap moment of None \<Rightarrow> []
            | Some v \<Rightarrow> NL @ ''          <lap>'' @ numToString h v @ ''</lap>'')
         @ (case pc moment of None \<Rightarrow> []
            | Some v \<Rightarrow> NL @ ''          <pc>'' @ numToString h v @ ''</pc>'')
         @ NL @ ''        </extensions>'' @ NL @ ''      </trkpt>'' @ NL"
    unfolding out head ele lap pc tail by (simp only: append_assoc)
  show "\<exists>stamp. timestampToISO (at moment) = Inr stamp \<and>
        out = gpx
         @ ''      <trkpt lat='' @ DQ @ numToString h (lat moment) @ DQ
         @ '' lon='' @ DQ @ numToString h (lon moment) @ DQ @ ''>'' @ NL
         @ ''        <time>'' @ stamp @ ''</time>'' @ NL
         @ ''        <extensions>'' @ NL
         @ ''          <dtf>''
         @ (case dtf moment of None \<Rightarrow> ''0''
            | Some d \<Rightarrow> if truthy h d then numToString h d else ''0'')
         @ ''</dtf>''
         @ (case alt moment of None \<Rightarrow> []
            | Some v \<Rightarrow> NL @ ''          <ele>'' @ numToString h v @ ''</ele>'')
         @ (case lap moment of None \<Rightarrow> []
            | Some v \<Rightarrow> NL @ ''          <lap>'' @ numToString h v @ ''</lap>'')
         @ (case pc moment of None \<Rightarrow> []
            | Some v \<Rightarrow> NL @ ''          <pc>'' @ numToString h v @ ''</pc>'')
         @ NL @ ''        </extensions>'' @ NL @ ''      </trkpt>'' @ NL"
  proof (rule exI, rule conjI)
    show "timestampToISO (at moment) = Inr stamp" by (fact ts)
    show "out = gpx
         @ ''      <trkpt lat='' @ DQ @ numToString h (lat moment) @ DQ
         @ '' lon='' @ DQ @ numToString h (lon moment) @ DQ @ ''>'' @ NL
         @ ''        <time>'' @ stamp @ ''</time>'' @ NL
         @ ''        <extensions>'' @ NL
         @ ''          <dtf>''
         @ (case dtf moment of None \<Rightarrow> ''0''
            | Some d \<Rightarrow> if truthy h d then numToString h d else ''0'')
         @ ''</dtf>''
         @ (case alt moment of None \<Rightarrow> []
            | Some v \<Rightarrow> NL @ ''          <ele>'' @ numToString h v @ ''</ele>'')
         @ (case lap moment of None \<Rightarrow> []
            | Some v \<Rightarrow> NL @ ''          <lap>'' @ numToString h v @ ''</lap>'')
         @ (case pc moment of None \<Rightarrow> []
            | Some v \<Rightarrow> NL @ ''          <pc>'' @ numToString h v @ ''</pc>'')
         @ NL @ ''        </extensions>'' @ NL @ ''      </trkpt>'' @ NL"
      by (fact full)
  qed
qed

theorem extensions_of_a_point_witness:
  "dtf (moments (hd samplePositions) ! 0) = Some (Some 5) \<and> alt (moments (hd samplePositions) ! 0) = None \<and> lap (moments (hd samplePositions) ! 0) = Some (Some 1) \<and> pc (moments (hd samplePositions) ! 0) = None \<and>
   trkpt sampleHost (moments (hd samplePositions) ! 0) [] = Inr (''      <trkpt lat='' @ DQ @ ''22'' @ DQ @ '' lon='' @ DQ @ ''-158'' @ DQ @ ''>'' @ NL
           @ ''        <time>2025-07-24T05:01:00.000Z</time>'' @ NL
           @ ''        <extensions>'' @ NL
           @ ''          <dtf>5</dtf>'' @ NL
           @ ''          <lap>1</lap>'' @ NL
           @ ''        </extensions>'' @ NL
           @ ''      </trkpt>'' @ NL) \<and>
   dtf (moments (hd samplePositions) ! 1) = None \<and> alt (moments (hd samplePositions) ! 1) = Some (Some 3) \<and> lap (moments (hd samplePositions) ! 1) = None \<and> pc (moments (hd samplePositions) ! 1) = None \<and>
   trkpt sampleHost (moments (hd samplePositions) ! 1) [] = Inr (''      <trkpt lat='' @ DQ @ ''21'' @ DQ @ '' lon='' @ DQ @ ''-157'' @ DQ @ ''>'' @ NL
           @ ''        <time>2025-07-24T05:00:00.000Z</time>'' @ NL
           @ ''        <extensions>'' @ NL
           @ ''          <dtf>0</dtf>'' @ NL
           @ ''          <ele>3</ele>'' @ NL
           @ ''        </extensions>'' @ NL
           @ ''      </trkpt>'' @ NL) \<and>
   (\<exists>stamp. timestampToISO (at (moments (hd samplePositions) ! 0)) = Inr stamp \<and>
      (''      <trkpt lat='' @ DQ @ ''22'' @ DQ @ '' lon='' @ DQ @ ''-158'' @ DQ @ ''>'' @ NL
           @ ''        <time>2025-07-24T05:01:00.000Z</time>'' @ NL
           @ ''        <extensions>'' @ NL
           @ ''          <dtf>5</dtf>'' @ NL
           @ ''          <lap>1</lap>'' @ NL
           @ ''        </extensions>'' @ NL
           @ ''      </trkpt>'' @ NL) = []
         @ ''      <trkpt lat='' @ DQ @ numToString sampleHost (lat (moments (hd samplePositions) ! 0)) @ DQ
         @ '' lon='' @ DQ @ numToString sampleHost (lon (moments (hd samplePositions) ! 0)) @ DQ @ ''>'' @ NL
         @ ''        <time>'' @ stamp @ ''</time>'' @ NL
         @ ''        <extensions>'' @ NL
         @ ''          <dtf>''
         @ (case dtf (moments (hd samplePositions) ! 0) of None \<Rightarrow> ''0''
            | Some d \<Rightarrow> if truthy sampleHost d then numToString sampleHost d else ''0'')
         @ ''</dtf>''
         @ (case alt (moments (hd samplePositions) ! 0) of None \<Rightarrow> []
            | Some v \<Rightarrow> NL @ ''          <ele>'' @ numToString sampleHost v @ ''</ele>'')
         @ (case lap (moments (hd samplePositions) ! 0) of None \<Rightarrow> []
            | Some v \<Rightarrow> NL @ ''          <lap>'' @ numToString sampleHost v @ ''</lap>'')
         @ (case pc (moments (hd samplePositions) ! 0) of None \<Rightarrow> []
            | Some v \<Rightarrow> NL @ ''          <pc>'' @ numToString sampleHost v @ ''</pc>'')
         @ NL @ ''        </extensions>'' @ NL @ ''      </trkpt>'' @ NL) \<and>
   (\<exists>stamp. timestampToISO (at (moments (hd samplePositions) ! 1)) = Inr stamp \<and>
      (''      <trkpt lat='' @ DQ @ ''21'' @ DQ @ '' lon='' @ DQ @ ''-157'' @ DQ @ ''>'' @ NL
           @ ''        <time>2025-07-24T05:00:00.000Z</time>'' @ NL
           @ ''        <extensions>'' @ NL
           @ ''          <dtf>0</dtf>'' @ NL
           @ ''          <ele>3</ele>'' @ NL
           @ ''        </extensions>'' @ NL
           @ ''      </trkpt>'' @ NL) = []
         @ ''      <trkpt lat='' @ DQ @ numToString sampleHost (lat (moments (hd samplePositions) ! 1)) @ DQ
         @ '' lon='' @ DQ @ numToString sampleHost (lon (moments (hd samplePositions) ! 1)) @ DQ @ ''>'' @ NL
         @ ''        <time>'' @ stamp @ ''</time>'' @ NL
         @ ''        <extensions>'' @ NL
         @ ''          <dtf>''
         @ (case dtf (moments (hd samplePositions) ! 1) of None \<Rightarrow> ''0''
            | Some d \<Rightarrow> if truthy sampleHost d then numToString sampleHost d else ''0'')
         @ ''</dtf>''
         @ (case alt (moments (hd samplePositions) ! 1) of None \<Rightarrow> []
            | Some v \<Rightarrow> NL @ ''          <ele>'' @ numToString sampleHost v @ ''</ele>'')
         @ (case lap (moments (hd samplePositions) ! 1) of None \<Rightarrow> []
            | Some v \<Rightarrow> NL @ ''          <lap>'' @ numToString sampleHost v @ ''</lap>'')
         @ (case pc (moments (hd samplePositions) ! 1) of None \<Rightarrow> []
            | Some v \<Rightarrow> NL @ ''          <pc>'' @ numToString sampleHost v @ ''</pc>'')
         @ NL @ ''        </extensions>'' @ NL @ ''      </trkpt>'' @ NL)"
proof -
  have f0: "dtf (moments (hd samplePositions) ! 0) = Some (Some 5)" "alt (moments (hd samplePositions) ! 0) = None" "lap (moments (hd samplePositions) ! 0) = Some (Some 1)" "pc (moments (hd samplePositions) ! 0) = None"
    by (simp_all add: samplePositions_def)
  have f1: "dtf (moments (hd samplePositions) ! 1) = None" "alt (moments (hd samplePositions) ! 1) = Some (Some 3)" "lap (moments (hd samplePositions) ! 1) = None" "pc (moments (hd samplePositions) ! 1) = None"
    by (simp_all add: samplePositions_def)
  have r0: "trkpt sampleHost (moments (hd samplePositions) ! 0) [] = Inr (''      <trkpt lat='' @ DQ @ ''22'' @ DQ @ '' lon='' @ DQ @ ''-158'' @ DQ @ ''>'' @ NL
           @ ''        <time>2025-07-24T05:01:00.000Z</time>'' @ NL
           @ ''        <extensions>'' @ NL
           @ ''          <dtf>5</dtf>'' @ NL
           @ ''          <lap>1</lap>'' @ NL
           @ ''        </extensions>'' @ NL
           @ ''      </trkpt>'' @ NL)"
    by code_simp
  have r1: "trkpt sampleHost (moments (hd samplePositions) ! 1) [] = Inr (''      <trkpt lat='' @ DQ @ ''21'' @ DQ @ '' lon='' @ DQ @ ''-157'' @ DQ @ ''>'' @ NL
           @ ''        <time>2025-07-24T05:00:00.000Z</time>'' @ NL
           @ ''        <extensions>'' @ NL
           @ ''          <dtf>0</dtf>'' @ NL
           @ ''          <ele>3</ele>'' @ NL
           @ ''        </extensions>'' @ NL
           @ ''      </trkpt>'' @ NL)"
    by code_simp
  have c0: "\<exists>stamp. timestampToISO (at (moments (hd samplePositions) ! 0)) = Inr stamp \<and>
      (''      <trkpt lat='' @ DQ @ ''22'' @ DQ @ '' lon='' @ DQ @ ''-158'' @ DQ @ ''>'' @ NL
           @ ''        <time>2025-07-24T05:01:00.000Z</time>'' @ NL
           @ ''        <extensions>'' @ NL
           @ ''          <dtf>5</dtf>'' @ NL
           @ ''          <lap>1</lap>'' @ NL
           @ ''        </extensions>'' @ NL
           @ ''      </trkpt>'' @ NL) = []
         @ ''      <trkpt lat='' @ DQ @ numToString sampleHost (lat (moments (hd samplePositions) ! 0)) @ DQ
         @ '' lon='' @ DQ @ numToString sampleHost (lon (moments (hd samplePositions) ! 0)) @ DQ @ ''>'' @ NL
         @ ''        <time>'' @ stamp @ ''</time>'' @ NL
         @ ''        <extensions>'' @ NL
         @ ''          <dtf>''
         @ (case dtf (moments (hd samplePositions) ! 0) of None \<Rightarrow> ''0''
            | Some d \<Rightarrow> if truthy sampleHost d then numToString sampleHost d else ''0'')
         @ ''</dtf>''
         @ (case alt (moments (hd samplePositions) ! 0) of None \<Rightarrow> []
            | Some v \<Rightarrow> NL @ ''          <ele>'' @ numToString sampleHost v @ ''</ele>'')
         @ (case lap (moments (hd samplePositions) ! 0) of None \<Rightarrow> []
            | Some v \<Rightarrow> NL @ ''          <lap>'' @ numToString sampleHost v @ ''</lap>'')
         @ (case pc (moments (hd samplePositions) ! 0) of None \<Rightarrow> []
            | Some v \<Rightarrow> NL @ ''          <pc>'' @ numToString sampleHost v @ ''</pc>'')
         @ NL @ ''        </extensions>'' @ NL @ ''      </trkpt>'' @ NL"
    using r0 by (rule extensions_of_a_point [THEN mp])
  have c1: "\<exists>stamp. timestampToISO (at (moments (hd samplePositions) ! 1)) = Inr stamp \<and>
      (''      <trkpt lat='' @ DQ @ ''21'' @ DQ @ '' lon='' @ DQ @ ''-157'' @ DQ @ ''>'' @ NL
           @ ''        <time>2025-07-24T05:00:00.000Z</time>'' @ NL
           @ ''        <extensions>'' @ NL
           @ ''          <dtf>0</dtf>'' @ NL
           @ ''          <ele>3</ele>'' @ NL
           @ ''        </extensions>'' @ NL
           @ ''      </trkpt>'' @ NL) = []
         @ ''      <trkpt lat='' @ DQ @ numToString sampleHost (lat (moments (hd samplePositions) ! 1)) @ DQ
         @ '' lon='' @ DQ @ numToString sampleHost (lon (moments (hd samplePositions) ! 1)) @ DQ @ ''>'' @ NL
         @ ''        <time>'' @ stamp @ ''</time>'' @ NL
         @ ''        <extensions>'' @ NL
         @ ''          <dtf>''
         @ (case dtf (moments (hd samplePositions) ! 1) of None \<Rightarrow> ''0''
            | Some d \<Rightarrow> if truthy sampleHost d then numToString sampleHost d else ''0'')
         @ ''</dtf>''
         @ (case alt (moments (hd samplePositions) ! 1) of None \<Rightarrow> []
            | Some v \<Rightarrow> NL @ ''          <ele>'' @ numToString sampleHost v @ ''</ele>'')
         @ (case lap (moments (hd samplePositions) ! 1) of None \<Rightarrow> []
            | Some v \<Rightarrow> NL @ ''          <lap>'' @ numToString sampleHost v @ ''</lap>'')
         @ (case pc (moments (hd samplePositions) ! 1) of None \<Rightarrow> []
            | Some v \<Rightarrow> NL @ ''          <pc>'' @ numToString sampleHost v @ ''</pc>'')
         @ NL @ ''        </extensions>'' @ NL @ ''      </trkpt>'' @ NL"
    using r1 by (rule extensions_of_a_point [THEN mp])
  from f0 r0 f1 r1 c0 c1 show ?thesis by (intro conjI)
qed

text \<open>
  C4. The race title, the boat names, owners and descriptions, the overlay group names
  and the overlay track names pass through \<open>escapeXml\<close>, which puts the entity in the
  place of every reserved character (\<open>escapeXml_entities\<close>). The description of an overlay
  track does not: \<open>overlay.source\<close> is inserted as it is. For the sample overlay read from
  \<open>data/a&b.gpx\<close> the document holds the name with its angle brackets escaped and the
  description with a bare ampersand.
\<close>

theorem overlay_description_not_escaped:
  "fst (generateGPXWithOverlays sampleHost sampleNow [] \<lparr>title = None, teams = None\<rparr> sampleOverlays)
     = Inr (''<?xml version='' @ DQ @ ''1.0'' @ DQ @ '' encoding='' @ DQ @ ''UTF-8'' @ DQ @ ''?>'' @ NL
        @ ''<gpx version='' @ DQ @ ''1.1'' @ DQ @ '' creator='' @ DQ @ ''decyb-gpx-converter'' @ DQ
        @ '' xmlns='' @ DQ @ ''http://www.topografix.com/GPX/1/1'' @ DQ @ ''>'' @ NL
        @ ''  <metadata>'' @ NL
        @ ''    <name>Sailing Race</name>'' @ NL
        @ ''    <time>2025-08-01T12:00:00.000Z</time>'' @ NL
        @ ''    <desc>Converted from race data using decyb-gpx-converter with overlays</desc>'' @ NL
        @ ''  </metadata>'' @ NL
        @ ''  <trk>'' @ NL
        @ ''    <name>Garmin &lt;1&gt; - Leg 1</name>'' @ NL
        @ ''    <desc>Overlay track from data/a&b.gpx</desc>'' @ NL
        @ ''    <trkseg>'' @ NL
        @ ''      <trkpt lat='' @ DQ @ ''21'' @ DQ @ '' lon='' @ DQ @ ''-157'' @ DQ @ ''>'' @ NL
        @ ''        <time>2025-07-24T05:00:00.000Z</time>'' @ NL
        @ ''        <extensions>'' @ NL
        @ ''          <overlay>true</overlay>'' @ NL
        @ ''          <color>FF0000</color>'' @ NL
        @ ''        </extensions>'' @ NL
        @ ''      </trkpt>'' @ NL
        @ ''    </trkseg>'' @ NL
        @ ''  </trk>'' @ NL
        @ ''</gpx>'')"
  by code_simp

text \<open>
  C5 (as amended). The converter sorts each boat's moments array in place and changes
  nothing else of its inputs: when a converter returns a document, the PositionRecords
  are the same in number, order and id, and each boat's moments sequence holds the same
  moments as before in stable timestamp order; a moments sequence that was already in
  non-decreasing timestamp order is unchanged.
\<close>

theorem moments_sorted_in_place:
  "(fst (generateGPX h now positions raceSetup) = Inr doc \<longrightarrow>
      snd (generateGPX h now positions raceSetup) = map sortedInPlace positions) \<and>
   (fst (generateGPXWithOverlays h now positions raceSetup overlays) = Inr doc' \<longrightarrow>
      snd (generateGPXWithOverlays h now positions raceSetup overlays) = map sortedInPlace positions) \<and>
   boat_id (sortedInPlace boat) = boat_id boat \<and>
   mset (moments (sortedInPlace boat)) = mset (moments boat) \<and>
   sorted (map at (moments (sortedInPlace boat))) \<and>
   (\<forall>t. filter (\<lambda>m. at m = t) (moments (sortedInPlace boat)) = filter (\<lambda>m. at m = t) (moments boat)) \<and>
   (sorted (map at (moments boat)) \<longrightarrow> sortedInPlace boat = boat)"
proof (intro conjI impI allI)
  assume "fst (generateGPX h now positions raceSetup) = Inr doc"
  then obtain g where
    "fst (forEachBoat h (buildBoatToTeam raceSetup) positions
       (docHead raceSetup @ now @ docMeta ''Converted from race data using decyb-gpx-converter'')) = Inr g"
    by (auto simp: generateGPX_def Let_def split: prod.splits sum.splits)
  from forEachBoat_snd [OF this] show "snd (generateGPX h now positions raceSetup) = map sortedInPlace positions"
    by (simp add: generateGPX_snd sortedInPlace_def [abs_def])
next
  assume "fst (generateGPXWithOverlays h now positions raceSetup overlays) = Inr doc'"
  then obtain g where
    "fst (forEachBoat h (buildBoatToTeam raceSetup) positions
       (docHead raceSetup @ now
        @ docMeta ''Converted from race data using decyb-gpx-converter with overlays'')) = Inr g"
    by (auto simp: generateGPXWithOverlays_def Let_def split: prod.splits sum.splits)
  from forEachBoat_snd [OF this]
  show "snd (generateGPXWithOverlays h now positions raceSetup overlays) = map sortedInPlace positions"
    by (simp add: generateGPXWithOverlays_snd sortedInPlace_def [abs_def])
next
  show "boat_id (sortedInPlace boat) = boat_id boat" by (simp add: sortedInPlace_def)
next
  show "mset (moments (sortedInPlace boat)) = mset (moments boat)"
    by (simp add: sortedInPlace_def mset_arraySort)
next
  show "sorted (map at (moments (sortedInPlace boat)))"
    by (simp add: sortedInPlace_def sorted_arraySort)
next
  fix t
  show "filter (\<lambda>m. at m = t) (moments (sortedInPlace boat)) = filter (\<lambda>m. at m = t) (moments boat)"
    by (simp add: sortedInPlace_def arraySort_stable)
next
  assume "sorted (map at (moments boat))"
  then show "sortedInPlace boat = boat"
    by (simp add: sortedInPlace_def arraySort_sorted_id)
qed

theorem moments_sorted_in_place_witness:
  "\<exists>doc doc'.
     fst (generateGPX sampleHost sampleNow samplePositions sampleSetup) = Inr doc \<and>
     fst (generateGPXWithOverlays sampleHost sampleNow samplePositions sampleSetup sampleOverlays)
       = Inr doc' \<and>
     snd (generateGPX sampleHost sampleNow samplePositions sampleSetup)
       = map sortedInPlace samplePositions \<and>
     snd (generateGPXWithOverlays sampleHost sampleNow samplePositions sampleSetup sampleOverlays)
       = map sortedInPlace samplePositions \<and>
     sorted (map at (moments (samplePositions ! 2))) \<and>
     sortedInPlace (samplePositions ! 2) = samplePositions ! 2"
proof -
  from generateGPX_ok [OF samplePositions_in_range, of sampleHost sampleNow sampleSetup]
  obtain doc where d:
    "fst (generateGPX sampleHost sampleNow samplePositions sampleSetup) = Inr doc"
    by blast
  from generateGPXWithOverlays_ok [OF samplePositions_in_range sampleOverlays_in_range,
         of sampleNow sampleSetup]
  obtain doc' where d':
    "fst (generateGPXWithOverlays sampleHost sampleNow samplePositions sampleSetup sampleOverlays)
       = Inr doc'"
    by blast
  have s: "sorted (map at (moments (samplePositions ! 2)))"
    by (simp add: samplePositions_def)
  from moments_sorted_in_place
         [of sampleHost sampleNow samplePositions sampleSetup doc sampleOverlays doc'
             "samplePositions ! 2"] d d' s
  show ?thesis by blast
qed

text \<open>
  The claim as stated fails: the first boat of the sample log has its moments out of
  order, and after the call the array is in a different order.
\<close>

theorem inputs_unchanged_counterexample:
  "(\<exists>doc. fst (generateGPX sampleHost sampleNow samplePositions sampleSetup) = Inr doc) \<and>
   map at (moments (hd samplePositions)) = [1753333260, 1753333200, 1753333260] \<and>
   map at (moments (hd (snd (generateGPX sampleHost sampleNow samplePositions sampleSetup))))
     = [1753333200, 1753333260, 1753333260] \<and>
   snd (generateGPX sampleHost sampleNow samplePositions sampleSetup) \<noteq> samplePositions"
proof -
  from generateGPX_ok [OF samplePositions_in_range, of sampleHost sampleNow sampleSetup]
  obtain doc where d:
    "fst (generateGPX sampleHost sampleNow samplePositions sampleSetup) = Inr doc"
    by blast
  then obtain g where
    "fst (forEachBoat sampleHost (buildBoatToTeam sampleSetup) samplePositions
       (docHead sampleSetup @ sampleNow @ docMeta ''Converted from race data using decyb-gpx-converter'')) = Inr g"
    by (auto simp: generateGPX_def Let_def split: prod.splits sum.splits)
  from forEachBoat_snd [OF this]
  have snd_eq: "snd (generateGPX sampleHost sampleNow samplePositions sampleSetup)
      = map (\<lambda>b. b\<lparr>moments := arraySort compareAt (moments b)\<rparr>) samplePositions"
    by (simp add: generateGPX_snd)
  have before: "map at (moments (hd samplePositions)) = [1753333260, 1753333200, 1753333260]"
    by (simp add: samplePositions_def)
  have after: "map at (moments (hd (snd (generateGPX sampleHost sampleNow samplePositions sampleSetup))))
     = [1753333200, 1753333260, 1753333260]"
    unfolding snd_eq by (simp add: samplePositions_def arraySort_def compareAt_def)
  from before after
  have "snd (generateGPX sampleHost sampleNow samplePositions sampleSetup) \<noteq> samplePositions"
    by auto
  with d before after show ?thesis by blast
qed

text \<open>
  C6. When several teams of the roster carry the id of a boat, the lookup table holds the
  last of them in the order of the teams array, and the name and the description that
  open the boat's track are made from the fields of that team.
\<close>

theorem duplicate_team_ids_last_wins:
  "teams raceSetup = Some ts \<Longrightarrow>
   filter (\<lambda>t. team_id t = boat_id boat) ts \<noteq> [] \<Longrightarrow>
   team = last (filter (\<lambda>t. team_id t = boat_id boat) ts) \<Longrightarrow>
     buildBoatToTeam raceSetup (boat_id boat) = Some team \<and>
     (fst (convertBoat h (buildBoatToTeam raceSetup) boat gpx) = Inr out \<longrightarrow>
        (\<exists>pts. out = gpx
           @ ''  <trk>'' @ NL
           @ ''    <name>''
           @ escapeXml (if absentOrEmpty (name team) then ''Boat '' @ intToString (boat_id boat)
                        else the (name team))
           @ '' (''
           @ escapeXml (if absentOrEmpty (owner team) then ''Unknown'' else the (owner team))
           @ '')</name>'' @ NL
           @ ''    <desc>''
           @ escapeXml
               (''Boat ID: '' @ intToString (boat_id boat)
                @ '', Owner: ''
                @ (if absentOrEmpty (owner team) then ''Unknown'' else the (owner team))
                @ '', Model: ''
                @ (if absentOrEmpty (model team) then ''Unknown'' else the (model team))
                @ '', Country: ''
                @ (if absentOrEmpty (country team) then ''Unknown'' else the (country team))
                @ (if absentOrEmpty (sail team) then [] else '', Sail: '' @ the (sail team)))
           @ ''</desc>'' @ NL
           @ ''    <trkseg>'' @ NL
           @ pts
           @ ''    </trkseg>'' @ NL
           @ ''  </trk>'' @ NL))"
proof -
  assume ts: "teams raceSetup = Some ts"
    and dup: "filter (\<lambda>t. team_id t = boat_id boat) ts \<noteq> []"
    and team: "team = last (filter (\<lambda>t. team_id t = boat_id boat) ts)"
  from ts dup team have look: "buildBoatToTeam raceSetup (boat_id boat) = Some team"
    by (simp add: buildBoatToTeam_def forEachTeam_lookup split: list.splits)
  show ?thesis
  proof (intro conjI impI)
    show "buildBoatToTeam raceSetup (boat_id boat) = Some team" by (fact look)
  next
    assume "fst (convertBoat h (buildBoatToTeam raceSetup) boat gpx) = Inr out"
    from convertBoat_out [OF this] obtain pts where
      "out = gpx @ trkOpen (buildBoatToTeam raceSetup (boat_id boat)) (boat_id boat) @ pts @ trkClose"
      by blast
    then have full: "out = gpx
           @ ''  <trk>'' @ NL
           @ ''    <name>''
           @ escapeXml (if absentOrEmpty (name team) then ''Boat '' @ intToString (boat_id boat)
                        else the (name team))
           @ '' (''
           @ escapeXml (if absentOrEmpty (owner team) then ''Unknown'' else the (owner team))
           @ '')</name>'' @ NL
           @ ''    <desc>''
           @ escapeXml
               (''Boat ID: '' @ intToString (boat_id boat)
                @ '', Owner: ''
                @ (if absentOrEmpty (owner team) then ''Unknown'' else the (owner team))
                @ '', Model: ''
                @ (if absentOrEmpty (model team) then ''Unknown'' else the (model team))
                @ '', Country: ''
                @ (if absentOrEmpty (country team) then ''Unknown'' else the (country team))
                @ (if absentOrEmpty (sail team) then [] else '', Sail: '' @ the (sail team)))
           @ ''</desc>'' @ NL
           @ ''    <trkseg>'' @ NL
           @ pts
           @ ''    </trkseg>'' @ NL
           @ ''  </trk>'' @ NL"
      unfolding look trkOpen_Some_text trkClose_def by (simp only: append_assoc)
    show "\<exists>pts. out = gpx
           @ ''  <trk>'' @ NL
           @ ''    <name>''
           @ escapeXml (if absentOrEmpty (name team) then ''Boat '' @ intToString (boat_id boat)
                        else the (name team))
           @ '' (''
           @ escapeXml (if absentOrEmpty (owner team) then ''Unknown'' else the (owner team))
           @ '')</name>'' @ NL
           @ ''    <desc>''
           @ escapeXml
               (''Boat ID: '' @ intToString (boat_id boat)
                @ '', Owner: ''
                @ (if absentOrEmpty (owner team) then ''Unknown'' else the (owner team))
                @ '', Model: ''
                @ (if absentOrEmpty (model team) then ''Unknown'' else the (model team))
                @ '', Country: ''
                @ (if absentOrEmpty (country team) then ''Unknown'' else the (country team))
                @ (if absentOrEmpty (sail team) then [] else '', Sail: '' @ the (sail team)))
           @ ''</desc>'' @ NL
           @ ''    <trkseg>'' @ NL
           @ pts
           @ ''    </trkseg>'' @ NL
           @ ''  </trk>'' @ NL"
    proof (rule exI)
      show "out = gpx
           @ ''  <trk>'' @ NL
           @ ''    <name>''
           @ escapeXml (if absentOrEmpty (name team) then ''Boat '' @ intToString (boat_id boat)
                        else the (name team))
           @ '' (''
           @ escapeXml (if absentOrEmpty (owner team) then ''Unknown'' else the (owner team))
           @ '')</name>'' @ NL
           @ ''    <desc>''
           @ escapeXml
               (''Boat ID: '' @ intToString (boat_id boat)
                @ '', Owner: ''
                @ (if absentOrEmpty (owner team) then ''Unknown'' else the (owner team))
                @ '', Model: ''
                @ (if absentOrEmpty (model team) then ''Unknown'' else the (model team))
                @ '', Country: ''
                @ (if absentOrEmpty (country team) then ''Unknown'' else the (country team))
                @ (if absentOrEmpty (sail team) then [] else '', Sail: '' @ the (sail team)))
           @ ''</desc>'' @ NL
           @ ''    <trkseg>'' @ NL
           @ pts
           @ ''    </trkseg>'' @ NL
           @ ''  </trk>'' @ NL"
        by (fact full)
    qed
  qed
qed

theorem duplicate_team_ids_last_wins_witness:
  "teams sampleSetup = Some
     [\<lparr>team_id = 1, name = Some ''First'', owner = Some ''A'', model = None,
        country = None, sail = None\<rparr>,
      \<lparr>team_id = 1, name = Some ''Aimant & Fille'', owner = Some ''Steven'', model = Some ''J/145'',
        country = Some ''US'', sail = Some []\<rparr>,
      \<lparr>team_id = 3, name = Some [], owner = None, model = Some ''X'',
        country = Some [], sail = None\<rparr>] \<and>
   boat_id (hd samplePositions) = 1 \<and>
   last (filter (\<lambda>t. team_id t = 1) (the (teams sampleSetup)))
     = \<lparr>team_id = 1, name = Some ''Aimant & Fille'', owner = Some ''Steven'',
             model = Some ''J/145'', country = Some ''US'', sail = Some []\<rparr> \<and>
   buildBoatToTeam sampleSetup 1
     = Some \<lparr>team_id = 1, name = Some ''Aimant & Fille'', owner = Some ''Steven'',
             model = Some ''J/145'', country = Some ''US'', sail = Some []\<rparr> \<and>
   (\<exists>out pts. fst (convertBoat sampleHost (buildBoatToTeam sampleSetup) (hd samplePositions) []) = Inr out \<and>
      out = ''  <trk>'' @ NL
           @ ''    <name>Aimant &amp; Fille (Steven)</name>'' @ NL
           @ ''    <desc>Boat ID: 1, Owner: Steven, Model: J/145, Country: US</desc>'' @ NL
           @ ''    <trkseg>'' @ NL
           @ pts
           @ ''    </trkseg>'' @ NL
           @ ''  </trk>'' @ NL)"
proof -
  let ?ts = "[\<lparr>team_id = 1, name = Some ''First'', owner = Some ''A'', model = None,
        country = None, sail = None\<rparr>,
      \<lparr>team_id = 1, name = Some ''Aimant & Fille'', owner = Some ''Steven'', model = Some ''J/145'',
        country = Some ''US'', sail = Some []\<rparr>,
      \<lparr>team_id = 3, name = Some [], owner = None, model = Some ''X'',
        country = Some [], sail = None\<rparr>]"
  let ?t = "\<lparr>team_id = 1, name = Some ''Aimant & Fille'', owner = Some ''Steven'',
             model = Some ''J/145'', country = Some ''US'', sail = Some []\<rparr>"
  have ts: "teams sampleSetup = Some ?ts" by (simp add: sampleSetup_def)
  have b: "boat_id (hd samplePositions) = 1" by (simp add: samplePositions_def)
  have f: "filter (\<lambda>t. team_id t = boat_id (hd samplePositions)) ?ts = butlast ?ts"
    by (simp add: b)
  then have ne: "filter (\<lambda>t. team_id t = boat_id (hd samplePositions)) ?ts \<noteq> []"
    and l: "?t = last (filter (\<lambda>t. team_id t = boat_id (hd samplePositions)) ?ts)"
    by simp_all
  have l': "last (filter (\<lambda>t. team_id t = 1) (the (teams sampleSetup))) = ?t"
    by (simp add: sampleSetup_def)
  have "\<forall>m \<in> set (moments (hd samplePositions)). \<bar>at m\<bar> \<le> 8640000000000"
    by (simp add: samplePositions_def)
  from convertBoat_ok [OF this, of sampleHost "buildBoatToTeam sampleSetup" "[]"]
  obtain out where out:
    "fst (convertBoat sampleHost (buildBoatToTeam sampleSetup) (hd samplePositions) []) = Inr out"
    by blast
  have one: "intToString 1 = ''1''" by code_simp
  note inst = duplicate_team_ids_last_wins [OF ts ne l, of sampleHost "[]" out]
  from inst have look: "buildBoatToTeam sampleSetup 1 = Some ?t" by (simp add: b)
  from inst out obtain pts where "out = []
           @ ''  <trk>'' @ NL
           @ ''    <name>''
           @ escapeXml (if absentOrEmpty (name \<lparr>team_id = 1, name = Some ''Aimant & Fille'', owner = Some ''Steven'',
             model = Some ''J/145'', country = Some ''US'', sail = Some []\<rparr>) then ''Boat '' @ intToString (boat_id (hd samplePositions))
                        else the (name \<lparr>team_id = 1, name = Some ''Aimant & Fille'', owner = Some ''Steven'',
             model = Some ''J/145'', country = Some ''US'', sail = Some []\<rparr>))
           @ '' (''
           @ escapeXml (if absentOrEmpty (owner \<lparr>team_id = 1, name = Some ''Aimant & Fille'', owner = Some ''Steven'',
             model = Some ''J/145'', country = Some ''US'', sail = Some []\<rparr>) then ''Unknown'' else the (owner \<lparr>team_id = 1, name = Some ''Aimant & Fille'', owner = Some ''Steven'',
             model = Some ''J/145'', country = Some ''US'', sail = Some []\<rparr>))
           @ '')</name>'' @ NL
           @ ''    <desc>''
           @ escapeXml
               (''Boat ID: '' @ intToString (boat_id (hd samplePositions))
                @ '', Owner: ''
                @ (if absentOrEmpty (owner \<lparr>team_id = 1, name = Some ''Aimant & Fille'', owner = Some ''Steven'',
             model = Some ''J/145'', country = Some ''US'', sail = Some []\<rparr>) then ''Unknown'' else the (owner \<lparr>team_id = 1, name = Some ''Aimant & Fille'', owner = Some ''Steven'',
             model = Some ''J/145'', country = Some ''US'', sail = Some []\<rparr>))
                @ '', Model: ''
                @ (if absentOrEmpty (model \<lparr>team_id = 1, name = Some ''Aimant & Fille'', owner = Some ''Steven'',
             model = Some ''J/145'', country = Some ''US'', sail = Some []\<rparr>) then ''Unknown'' else the (model \<lparr>team_id = 1, name = Some ''Aimant & Fille'', owner = Some ''Steven'',
             model = Some ''J/145'', country = Some ''US'', sail = Some []\<rparr>))
                @ '', Country: ''
                @ (if absentOrEmpty (country \<lparr>team_id = 1, name = Some ''Aimant & Fille'', owner = Some ''Steven'',
             model = Some ''J/145'', country = Some ''US'', sail = Some []\<rparr>) then ''Unknown'' else the (country \<lparr>team_id = 1, name = Some ''Aimant & Fille'', owner = Some ''Steven'',
             model = Some ''J/145'', country = Some ''US'', sail = Some []\<rparr>))
                @ (if absentOrEmpty (sail \<lparr>team_id = 1, name = Some ''Aimant & Fille'', owner = Some ''Steven'',
             model = Some ''J/145'', country = Some ''US'', sail = Some []\<rparr>) then [] else '', Sail: '' @ the (sail \<lparr>team_id = 1, name = Some ''Aimant & Fille'', owner = Some ''Steven'',
             model = Some ''J/145'', country = Some ''US'', sail = Some []\<rparr>)))
           @ ''</desc>'' @ NL
           @ ''    <trkseg>'' @ NL
           @ pts
           @ ''    </trkseg>'' @ NL
           @ ''  </trk>'' @ NL"
    by blast
  then have "out = ''  <trk>'' @ NL
           @ ''    <name>Aimant &amp; Fille (Steven)</name>'' @ NL
           @ ''    <desc>Boat ID: 1, Owner: Steven, Model: J/145, Country: US</desc>'' @ NL
           @ ''    <trkseg>'' @ NL
           @ pts
           @ ''    </trkseg>'' @ NL
           @ ''  </trk>'' @ NL"
    by (simp add: b one absentOrEmpty_def escapeXml_def)
  with out have "\<exists>out pts. fst (convertBoat sampleHost (buildBoatToTeam sampleSetup) (hd samplePositions) []) = Inr out \<and>
      out = ''  <trk>'' @ NL
           @ ''    <name>Aimant &amp; Fille (Steven)</name>'' @ NL
           @ ''    <desc>Boat ID: 1, Owner: Steven, Model: J/145, Country: US</desc>'' @ NL
           @ ''    <trkseg>'' @ NL
           @ pts
           @ ''    </trkseg>'' @ NL
           @ ''  </trk>'' @ NL"
    by blast
  with ts b l' look show ?thesis by (intro conjI)
qed

text \<open>
  C7. A boat whose id no team of the roster carries gets the track name
  \<open>Boat {id} (Unknown)\<close> and the description
  \<open>Boat ID: {id}, Owner: Unknown, Model: Unknown, Country: Unknown\<close>, without a sail field.
\<close>

theorem unknown_boat_track:
  "(\<forall>ts. teams raceSetup = Some ts \<longrightarrow> (\<forall>team \<in> set ts. team_id team \<noteq> boat_id boat)) \<Longrightarrow>
     buildBoatToTeam raceSetup (boat_id boat) = None \<and>
     (fst (convertBoat h (buildBoatToTeam raceSetup) boat gpx) = Inr out \<longrightarrow>
        (\<exists>pts. out = gpx
           @ ''  <trk>'' @ NL
           @ ''    <name>Boat '' @ intToString (boat_id boat) @ '' (Unknown)</name>'' @ NL
           @ ''    <desc>Boat ID: '' @ intToString (boat_id boat)
           @ '', Owner: Unknown, Model: Unknown, Country: Unknown</desc>'' @ NL
           @ ''    <trkseg>'' @ NL
           @ pts @ trkClose))"
proof -
  assume no: "\<forall>ts. teams raceSetup = Some ts \<longrightarrow> (\<forall>team \<in> set ts. team_id team \<noteq> boat_id boat)"
  have look: "buildBoatToTeam raceSetup (boat_id boat) = None"
  proof (cases "teams raceSetup")
    case None
    then show ?thesis by (simp add: buildBoatToTeam_def)
  next
    case (Some ts)
    with no have "\<forall>team \<in> set ts. team_id team \<noteq> boat_id boat" by simp
    from forEachTeam_no_match [OF this, of Map.empty] Some show ?thesis
      by (simp add: buildBoatToTeam_def)
  qed
  show ?thesis
  proof (intro conjI impI)
    show "buildBoatToTeam raceSetup (boat_id boat) = None" by (fact look)
  next
    assume "fst (convertBoat h (buildBoatToTeam raceSetup) boat gpx) = Inr out"
    from convertBoat_out [OF this] obtain pts where
      "out = gpx @ trkOpen (buildBoatToTeam raceSetup (boat_id boat)) (boat_id boat) @ pts @ trkClose"
      by blast
    then have full: "out = gpx
           @ ''  <trk>'' @ NL
           @ ''    <name>Boat '' @ intToString (boat_id boat) @ '' (Unknown)</name>'' @ NL
           @ ''    <desc>Boat ID: '' @ intToString (boat_id boat)
           @ '', Owner: Unknown, Model: Unknown, Country: Unknown</desc>'' @ NL
           @ ''    <trkseg>'' @ NL
           @ pts @ trkClose"
      unfolding look trkOpen_None by (simp only: append_assoc)
    show "\<exists>pts. out = gpx
           @ ''  <trk>'' @ NL
           @ ''    <name>Boat '' @ intToString (boat_id boat) @ '' (Unknown)</name>'' @ NL
           @ ''    <desc>Boat ID: '' @ intToString (boat_id boat)
           @ '', Owner: Unknown, Model: Unknown, Country: Unknown</desc>'' @ NL
           @ ''    <trkseg>'' @ NL
           @ pts @ trkClose"
    proof (rule exI)
      show "out = gpx
           @ ''  <trk>'' @ NL
           @ ''    <name>Boat '' @ intToString (boat_id boat) @ '' (Unknown)</name>'' @ NL
           @ ''    <desc>Boat ID: '' @ intToString (boat_id boat)
           @ '', Owner: Unknown, Model: Unknown, Country: Unknown</desc>'' @ NL
           @ ''    <trkseg>'' @ NL
           @ pts @ trkClose"
        by (fact full)
    qed
  qed
qed

theorem unknown_boat_track_witness:
  "boat_id (samplePositions ! 1) = 7 \<and>
   teams sampleSetup \<noteq> None \<and> 7 \<notin> team_id ` set (the (teams sampleSetup)) \<and>
   buildBoatToTeam sampleSetup 7 = None \<and>
   fst (convertBoat sampleHost (buildBoatToTeam sampleSetup) (samplePositions ! 1) [])
     = Inr (''  <trk>'' @ NL
            @ ''    <name>Boat 7 (Unknown)</name>'' @ NL
            @ ''    <desc>Boat ID: 7, Owner: Unknown, Model: Unknown, Country: Unknown</desc>'' @ NL
            @ ''    <trkseg>'' @ NL
            @ ''    </trkseg>'' @ NL
            @ ''  </trk>'' @ NL)"
proof -
  have b: "boat_id (samplePositions ! 1) = 7" by (simp add: samplePositions_def)
  have no: "\<forall>ts. teams sampleSetup = Some ts \<longrightarrow> (\<forall>team \<in> set ts. team_id team \<noteq> boat_id (samplePositions ! 1))"
    unfolding b by (simp add: sampleSetup_def)
  have run: "fst (convertBoat sampleHost (buildBoatToTeam sampleSetup) (samplePositions ! 1) [])
     = Inr (''  <trk>'' @ NL
            @ ''    <name>Boat 7 (Unknown)</name>'' @ NL
            @ ''    <desc>Boat ID: 7, Owner: Unknown, Model: Unknown, Country: Unknown</desc>'' @ NL
            @ ''    <trkseg>'' @ NL
            @ ''    </trkseg>'' @ NL
            @ ''  </trk>'' @ NL)"
    by code_simp
  from unknown_boat_track [OF no, of sampleHost "[]"] b
  have "buildBoatToTeam sampleSetup 7 = None" by simp
  moreover have "teams sampleSetup \<noteq> None" "7 \<notin> team_id ` set (the (teams sampleSetup))"
    by (simp_all add: sampleSetup_def)
  ultimately show ?thesis using b run by (intro conjI)
qed

text \<open>
  C8. \<open>parseGpxTrack\<close> is a total function of its input text: its two loops end because
  every match consumes at least the literal text of its pattern, and none of its steps
  can throw. Every track it returns has at least one point, and a text in which the
  track pattern finds nothing gives the empty sequence. An overlay group whose text
  gave no track adds nothing to the document and raises nothing.
\<close>

theorem parseGpxTrack_tracks_have_points:
  "(\<forall>track \<in> set (parseGpxTrack h gpxData). points track \<noteq> []) \<and>
   (exec trackRegex gpxData = None \<longrightarrow> parseGpxTrack h gpxData = []) \<and>
   (tracks ov = parseGpxTrack h gpxData \<and> parseGpxTrack h gpxData = [] \<longrightarrow>
      forEachOverlay h (ov # rest) gpx = forEachOverlay h rest gpx)"
proof (intro conjI impI)
  show "\<forall>track \<in> set (parseGpxTrack h gpxData). points track \<noteq> []"
    unfolding parseGpxTrack_def by (rule trackLoop_points)
next
  assume "exec trackRegex gpxData = None"
  then show "parseGpxTrack h gpxData = []"
    by (simp add: parseGpxTrack_def trackLoop.simps [of h gpxData])
next
  assume "tracks ov = parseGpxTrack h gpxData \<and> parseGpxTrack h gpxData = []"
  then have "tracks ov = []" by simp
  then show "forEachOverlay h (ov # rest) gpx = forEachOverlay h rest gpx" by simp
qed

theorem parseGpxTrack_tracks_have_points_witness:
  "parseGpxTrack sampleHost sampleGpx
     = [\<lparr>trk_name = ''A'',
         points = [\<lparr>pt_lat = Some 12, pt_lon = Some (- 7), pt_at = Some 1753333200\<rparr>,
                   \<lparr>pt_lat = Some 13, pt_lon = Some (- 8), pt_at = Some 1753333200\<rparr>]\<rparr>] \<and>
   points (hd (parseGpxTrack sampleHost sampleGpx)) \<noteq> [] \<and>
   exec trackRegex ''<trk> is not closed'' = None \<and>
   parseGpxTrack sampleHost ''<trk> is not closed'' = [] \<and>
   forEachOverlay sampleHost
     [\<lparr>ov_name = ''Broken'', color = ''FF0000'', source = ''broken.gpx'',
        tracks = parseGpxTrack sampleHost ''<trk> is not closed''\<rparr>] ''<gpx>'' = Inr ''<gpx>''"
proof -
  have a: "parseGpxTrack sampleHost sampleGpx
     = [\<lparr>trk_name = ''A'',
         points = [\<lparr>pt_lat = Some 12, pt_lon = Some (- 7), pt_at = Some 1753333200\<rparr>,
                   \<lparr>pt_lat = Some 13, pt_lon = Some (- 8), pt_at = Some 1753333200\<rparr>]\<rparr>]"
    by code_simp
  have b: "exec trackRegex ''<trk> is not closed'' = None" by code_simp
  from parseGpxTrack_tracks_have_points [of sampleHost sampleGpx] a
  have c: "points (hd (parseGpxTrack sampleHost sampleGpx)) \<noteq> []" by simp
  let ?ov = "\<lparr>ov_name = ''Broken'', color = ''FF0000'', source = ''broken.gpx'',
        tracks = parseGpxTrack sampleHost ''<trk> is not closed''\<rparr>"
  note inst = parseGpxTrack_tracks_have_points
    [of sampleHost "''<trk> is not closed''" ?ov "[]" "''<gpx>''"]
  from inst b have d: "parseGpxTrack sampleHost ''<trk> is not closed'' = []" by blast
  have "tracks ?ov = parseGpxTrack sampleHost ''<trk> is not closed''" by simp
  with inst d have "forEachOverlay sampleHost [?ov] ''<gpx>'' = forEachOverlay sampleHost [] ''<gpx>''"
    by blast
  then have e: "forEachOverlay sampleHost [?ov] ''<gpx>'' = Inr ''<gpx>''" by simp
  from a b c d e show ?thesis by (intro conjI)
qed

text \<open>
  C9. The returned document is the document head up to the opening of the metadata time
  element, then the generation time, then a text that does not depend on the generation
  time; and whether an exception is thrown does not depend on it either. A second run on
  the position log as the first run left it gives the same text again.
\<close>

theorem output_determined_by_inputs:
  "\<exists>rest rest'.
     (\<forall>now. fst (generateGPX h now positions raceSetup) = stamped (docHead raceSetup) now rest) \<and>
     (\<forall>now now'. fst (generateGPX h now' (snd (generateGPX h now positions raceSetup)) raceSetup)
                   = stamped (docHead raceSetup) now' rest) \<and>
     (\<forall>now. fst (generateGPXWithOverlays h now positions raceSetup overlays)
              = stamped (docHead raceSetup) now rest') \<and>
     (\<forall>now now'. fst (generateGPXWithOverlays h now'
                          (snd (generateGPXWithOverlays h now positions raceSetup overlays))
                          raceSetup overlays)
                   = stamped (docHead raceSetup) now' rest')"
proof -
  let ?bt = "buildBoatToTeam raceSetup"
  let ?rest = "case fst (forEachBoat h ?bt positions []) of
                 Inl e \<Rightarrow> Inl e
               | Inr t \<Rightarrow> Inr (docMeta ''Converted from race data using decyb-gpx-converter''
                              @ t @ ''</gpx>'')"
  let ?rest' = "case fst (forEachBoat h ?bt positions []) of
                 Inl e \<Rightarrow> Inl e
               | Inr t \<Rightarrow>
                   (case forEachOverlay h overlays [] of
                      Inl e \<Rightarrow> Inl e
                    | Inr ovs \<Rightarrow>
                        Inr (docMeta ''Converted from race data using decyb-gpx-converter with overlays''
                             @ t @ ovs @ ''</gpx>''))"
  have a: "fst (generateGPX h now positions raceSetup) = stamped (docHead raceSetup) now ?rest" for now
    by (simp add: generateGPX_fst stamped_def split: sum.splits)
  have b: "fst (generateGPX h now' (snd (generateGPX h now positions raceSetup)) raceSetup)
             = stamped (docHead raceSetup) now' ?rest" for now now'
    by (simp add: generateGPX_fst generateGPX_snd forEachBoat_rerun stamped_def split: sum.splits)
  have c: "fst (generateGPXWithOverlays h now positions raceSetup overlays)
             = stamped (docHead raceSetup) now ?rest'" for now
    by (simp add: generateGPXWithOverlays_fst stamped_def split: sum.splits)
  have d: "fst (generateGPXWithOverlays h now'
                  (snd (generateGPXWithOverlays h now positions raceSetup overlays)) raceSetup overlays)
             = stamped (docHead raceSetup) now' ?rest'" for now now'
    by (simp add: generateGPXWithOverlays_fst generateGPXWithOverlays_snd forEachBoat_rerun
        stamped_def split: sum.splits)
  from a b c d show ?thesis by blast
qed

text \<open>
  C10. The fallbacks are taken field by field. With a team found for the boat, a missing
  or empty name falls back to \<open>Boat {id}\<close>, a missing or empty owner, model or country to
  \<open>Unknown\<close>, and a missing or empty sail number leaves the sail field out of the
  description; these are the values used when no team is found. The boat's track opens
  with the name and description made from them.
\<close>

theorem field_wise_fallbacks:
  "boatNameOf (Some team) bid
     = (if absentOrEmpty (name team) then ''Boat '' @ intToString bid else the (name team)) \<and>
   ownerOf (Some team) = (if absentOrEmpty (owner team) then ''Unknown'' else the (owner team)) \<and>
   modelOf (Some team) = (if absentOrEmpty (model team) then ''Unknown'' else the (model team)) \<and>
   countryOf (Some team)
     = (if absentOrEmpty (country team) then ''Unknown'' else the (country team)) \<and>
   descOf (Some team) bid
     = ''Boat ID: '' @ intToString bid @ '', Owner: '' @ ownerOf (Some team)
       @ '', Model: '' @ modelOf (Some team) @ '', Country: '' @ countryOf (Some team)
       @ (if absentOrEmpty (sail team) then [] else '', Sail: '' @ the (sail team)) \<and>
   boatNameOf None bid = ''Boat '' @ intToString bid \<and>
   ownerOf None = ''Unknown'' \<and> modelOf None = ''Unknown'' \<and> countryOf None = ''Unknown'' \<and>
   descOf None bid
     = ''Boat ID: '' @ intToString bid @ '', Owner: Unknown, Model: Unknown, Country: Unknown'' \<and>
   (buildBoatToTeam raceSetup (boat_id boat) = Some team \<and>
    fst (convertBoat h (buildBoatToTeam raceSetup) boat gpx) = Inr out \<longrightarrow>
      (\<exists>pts. out = gpx
         @ ''  <trk>'' @ NL
         @ ''    <name>'' @ escapeXml (boatNameOf (Some team) (boat_id boat))
         @ '' ('' @ escapeXml (ownerOf (Some team)) @ '')</name>'' @ NL
         @ ''    <desc>'' @ escapeXml (descOf (Some team) (boat_id boat)) @ ''</desc>'' @ NL
         @ ''    <trkseg>'' @ NL
         @ pts @ trkClose))"
proof (intro conjI impI)
  show "boatNameOf (Some team) bid
     = (if absentOrEmpty (name team) then ''Boat '' @ intToString bid else the (name team))"
    by (simp add: boatNameOf_def orElse_absentOrEmpty)
  show "ownerOf (Some team) = (if absentOrEmpty (owner team) then ''Unknown'' else the (owner team))"
    by (simp add: ownerOf_def orElse_absentOrEmpty)
  show "modelOf (Some team) = (if absentOrEmpty (model team) then ''Unknown'' else the (model team))"
    by (simp add: modelOf_def orElse_absentOrEmpty)
  show "countryOf (Some team)
     = (if absentOrEmpty (country team) then ''Unknown'' else the (country team))"
    by (simp add: countryOf_def orElse_absentOrEmpty)
  show "descOf (Some team) bid
     = ''Boat ID: '' @ intToString bid @ '', Owner: '' @ ownerOf (Some team)
       @ '', Model: '' @ modelOf (Some team) @ '', Country: '' @ countryOf (Some team)
       @ (if absentOrEmpty (sail team) then [] else '', Sail: '' @ the (sail team))"
    by (cases "sail team") (auto simp: descOf_def Let_def sailNumberOf_def orElse_def absentOrEmpty_def)
  show "boatNameOf None bid = ''Boat '' @ intToString bid" by (simp add: boatNameOf_def)
  show "ownerOf None = ''Unknown''" by (simp add: ownerOf_def)
  show "modelOf None = ''Unknown''" by (simp add: modelOf_def)
  show "countryOf None = ''Unknown''" by (simp add: countryOf_def)
  show "descOf None bid
     = ''Boat ID: '' @ intToString bid @ '', Owner: Unknown, Model: Unknown, Country: Unknown''"
    by (simp add: descOf_def ownerOf_def modelOf_def countryOf_def sailNumberOf_def)
next
  assume a: "buildBoatToTeam raceSetup (boat_id boat) = Some team \<and>
    fst (convertBoat h (buildBoatToTeam raceSetup) boat gpx) = Inr out"
  then have look: "buildBoatToTeam raceSetup (boat_id boat) = Some team"
    and run: "fst (convertBoat h (buildBoatToTeam raceSetup) boat gpx) = Inr out"
    by (rule conjunct1, rule conjunct2)
  from convertBoat_out [OF run] obtain pts where
    "out = gpx @ trkOpen (buildBoatToTeam raceSetup (boat_id boat)) (boat_id boat) @ pts @ trkClose"
    by blast
  then have full: "out = gpx
         @ ''  <trk>'' @ NL
         @ ''    <name>'' @ escapeXml (boatNameOf (Some team) (boat_id boat))
         @ '' ('' @ escapeXml (ownerOf (Some team)) @ '')</name>'' @ NL
         @ ''    <desc>'' @ escapeXml (descOf (Some team) (boat_id boat)) @ ''</desc>'' @ NL
         @ ''    <trkseg>'' @ NL
         @ pts @ trkClose"
    unfolding look trkOpen_def by (simp only: append_assoc)
  show "\<exists>pts. out = gpx
         @ ''  <trk>'' @ NL
         @ ''    <name>'' @ escapeXml (boatNameOf (Some team) (boat_id boat))
         @ '' ('' @ escapeXml (ownerOf (Some team)) @ '')</name>'' @ NL
         @ ''    <desc>'' @ escapeXml (descOf (Some team) (boat_id boat)) @ ''</desc>'' @ NL
         @ ''    <trkseg>'' @ NL
         @ pts @ trkClose"
  proof (rule exI)
    show "out = gpx
         @ ''  <trk>'' @ NL
         @ ''    <name>'' @ escapeXml (boatNameOf (Some team) (boat_id boat))
         @ '' ('' @ escapeXml (ownerOf (Some team)) @ '')</name>'' @ NL
         @ ''    <desc>'' @ escapeXml (descOf (Some team) (boat_id boat)) @ ''</desc>'' @ NL
         @ ''    <trkseg>'' @ NL
         @ pts @ trkClose"
      by (fact full)
  qed
qed

theorem field_wise_fallbacks_witness:
  "buildBoatToTeam sampleSetup (boat_id (samplePositions ! 2)) = Some sampleTeam3 \<and>
   boat_id (samplePositions ! 2) = 3 \<and>
   boatNameOf (Some sampleTeam3) 3 = ''Boat 3'' \<and>
   ownerOf (Some sampleTeam3) = ''Unknown'' \<and>
   modelOf (Some sampleTeam3) = ''X'' \<and>
   countryOf (Some sampleTeam3) = ''Unknown'' \<and>
   descOf (Some sampleTeam3) 3 = ''Boat ID: 3, Owner: Unknown, Model: X, Country: Unknown'' \<and>
   (\<exists>out pts.
      fst (convertBoat sampleHost (buildBoatToTeam sampleSetup) (samplePositions ! 2) []) = Inr out \<and>
      out = [] @ ''  <trk>'' @ NL
         @ ''    <name>'' @ escapeXml (boatNameOf (Some sampleTeam3) (boat_id (samplePositions ! 2)))
         @ '' ('' @ escapeXml (ownerOf (Some sampleTeam3)) @ '')</name>'' @ NL
         @ ''    <desc>'' @ escapeXml (descOf (Some sampleTeam3) (boat_id (samplePositions ! 2)))
         @ ''</desc>'' @ NL
         @ ''    <trkseg>'' @ NL
         @ pts @ trkClose)"
proof -
  have b: "boat_id (samplePositions ! 2) = 3" by (simp add: samplePositions_def)
  have look: "buildBoatToTeam sampleSetup (boat_id (samplePositions ! 2)) = Some sampleTeam3"
    unfolding b by (simp add: buildBoatToTeam_def sampleSetup_def sampleTeam3_def)
  have "\<forall>m \<in> set (moments (samplePositions ! 2)). \<bar>at m\<bar> \<le> 8640000000000"
    by (simp add: samplePositions_def)
  from convertBoat_ok [OF this, of sampleHost "buildBoatToTeam sampleSetup" "[]"]
  obtain out where out:
    "fst (convertBoat sampleHost (buildBoatToTeam sampleSetup) (samplePositions ! 2) []) = Inr out"
    by blast
  note inst = field_wise_fallbacks
    [of sampleTeam3 3 sampleSetup "samplePositions ! 2" sampleHost "[]" out]
  have e: "absentOrEmpty (name sampleTeam3)" "absentOrEmpty (owner sampleTeam3)"
    "\<not> absentOrEmpty (model sampleTeam3)" "absentOrEmpty (country sampleTeam3)"
    "absentOrEmpty (sail sampleTeam3)" "model sampleTeam3 = Some ''X''"
    by (simp_all add: absentOrEmpty_def sampleTeam3_def)
  have three: "intToString 3 = ''3''" by code_simp
  from inst e three have vals:
    "boatNameOf (Some sampleTeam3) 3 = ''Boat 3''"
    "ownerOf (Some sampleTeam3) = ''Unknown''"
    "modelOf (Some sampleTeam3) = ''X''"
    "countryOf (Some sampleTeam3) = ''Unknown''"
    "descOf (Some sampleTeam3) 3 = ''Boat ID: 3, Owner: Unknown, Model: X, Country: Unknown''"
    by simp_all
  from inst look out have "\<exists>pts. out = [] @ ''  <trk>'' @ NL
         @ ''    <name>'' @ escapeXml (boatNameOf (Some sampleTeam3) (boat_id (samplePositions ! 2)))
         @ '' ('' @ escapeXml (ownerOf (Some sampleTeam3)) @ '')</name>'' @ NL
         @ ''    <desc>'' @ escapeXml (descOf (Some sampleTeam3) (boat_id (samplePositions ! 2)))
         @ ''</desc>'' @ NL
         @ ''    <trkseg>'' @ NL
         @ pts @ trkClose"
    by blast
  with out have "\<exists>out pts.
      fst (convertBoat sampleHost (buildBoatToTeam sampleSetup) (samplePositions ! 2) []) = Inr out \<and>
      out = [] @ ''  <trk>'' @ NL
         @ ''    <name>'' @ escapeXml (boatNameOf (Some sampleTeam3) (boat_id (samplePositions ! 2)))
         @ '' ('' @ escapeXml (ownerOf (Some sampleTeam3)) @ '')</name>'' @ NL
         @ ''    <desc>'' @ escapeXml (descOf (Some sampleTeam3) (boat_id (samplePositions ! 2)))
         @ ''</desc>'' @ NL
         @ ''    <trkseg>'' @ NL
         @ pts @ trkClose"
    by blast
  with look b vals show ?thesis by (intro conjI)
qed

section \<open>Further properties\<close>

text \<open>
  The converter throws exactly when some timestamp lies beyond the range of a Date
  (8,640,000,000,000 seconds either side of the epoch): the RangeError of \<open>toISOString\<close>.
\<close>

theorem generateGPX_throws_iff:
  "fst (generateGPX h now positions raceSetup) = Inl RangeError \<longleftrightarrow>
     (\<exists>boat \<in> set positions. \<exists>m \<in> set (moments boat). \<bar>at m\<bar> > 8640000000000)"
proof
  assume fails: "fst (generateGPX h now positions raceSetup) = Inl RangeError"
  show "\<exists>boat \<in> set positions. \<exists>m \<in> set (moments boat). \<bar>at m\<bar> > 8640000000000"
  proof (rule ccontr)
    assume "\<not> (\<exists>boat \<in> set positions. \<exists>m \<in> set (moments boat). \<bar>at m\<bar> > 8640000000000)"
    then have "\<forall>b \<in> set positions. \<forall>m \<in> set (moments b). \<bar>at m\<bar> \<le> 8640000000000"
      by (auto simp: not_less)
    from generateGPX_ok [OF this, of h now raceSetup] fails show False by auto
  qed
next
  assume out: "\<exists>boat \<in> set positions. \<exists>m \<in> set (moments boat). \<bar>at m\<bar> > 8640000000000"
  show "fst (generateGPX h now positions raceSetup) = Inl RangeError"
  proof (cases "fst (generateGPX h now positions raceSetup)")
    case (Inl e)
    then show ?thesis by (cases e) simp
  next
    case (Inr doc)
    then obtain g where
      "fst (forEachBoat h (buildBoatToTeam raceSetup) positions
         (docHead raceSetup @ now @ docMeta ''Converted from race data using decyb-gpx-converter'')) = Inr g"
      by (auto simp: generateGPX_def Let_def split: prod.splits sum.splits)
    from forEachBoat_Inr_in_range [OF this] out have False by fastforce
    then show ?thesis ..
  qed
qed

text \<open>
  \<open>escapeXml\<close> puts the entity in the place of each of the five reserved characters and
  leaves every other character as it is. The replacements run one after the other, the
  ampersand first, so no entity is escaped twice.
\<close>

theorem escapeXml_replaces_reserved:
  "escapeXml s = concat (map xmlEntity s) \<and>
   xmlEntity CHR ''&'' = ''&amp;'' \<and> xmlEntity CHR ''<'' = ''&lt;'' \<and>
   xmlEntity CHR ''>'' = ''&gt;'' \<and> xmlEntity (CHR 0x22) = ''&quot;'' \<and>
   xmlEntity (CHR 0x27) = ''&apos;'' \<and>
   xmlEntity c = (if isReserved c then xmlEntity c else [c])"
  by (simp add: escapeXml_entities xmlEntity_plain) (simp add: xmlEntity_def)

end
